theory Spec2Isabelle
  imports Complex_Main "HOL-Library.Sublist"
begin

section \<open>JavaScript strings\<close>

text \<open>
  A JavaScript string is modelled as a \<open>string\<close>: one \<open>char\<close> stands for one UTF-16 code
  unit below \<open>0x100\<close> (ASCII and Latin-1), so \<open>length\<close> is the source's \<open>.length\<close> on such
  text. Text with code units from \<open>0x100\<close> on is outside the model.

  \<open>String.prototype.trim\<close> removes white space and line terminators from both ends; below
  \<open>0x100\<close> these are TAB, LF, VT, FF, CR, SPACE and NO-BREAK SPACE.
\<close>

definition is_white_space :: "char \<Rightarrow> bool" where
  "is_white_space c =
     (c = CHR 0x09 \<or> c = CHR 0x0A \<or> c = CHR 0x0B \<or> c = CHR 0x0C \<or> c = CHR 0x0D \<or>
      c = CHR 0x20 \<or> c = CHR 0xA0)"

definition trim :: "string \<Rightarrow> string" where
  "trim s = rev (dropWhile is_white_space (rev (dropWhile is_white_space s)))"

text \<open>Truthiness of a string, and of a string that may be \<open>null\<close>.\<close>

definition truthy_string :: "string \<Rightarrow> bool" where
  "truthy_string s = (s \<noteq> [])"

definition truthy_nullable :: "string option \<Rightarrow> bool" where
  "truthy_nullable t = (case t of None \<Rightarrow> False | Some s \<Rightarrow> truthy_string s)"

section \<open>The credential connector (\<open>NotionConnector\<close>)\<close>

definition NOTION_TOKEN_LOCAL_STORAGE_KEY :: string where
  "NOTION_TOKEN_LOCAL_STORAGE_KEY = ''notionIntegrationSecret''"

text \<open>
  The three \<open>useState\<close> cells of the component, the browser's \<open>localStorage\<close> (a map from
  keys to values; \<open>getItem\<close> of a missing key is \<open>null\<close>, here \<open>None\<close>) and the console,
  as the list of lines logged so far. Writes to the storage always succeed, as the
  component assumes.
\<close>

record connector =
  menu_open :: bool
  secretInputValue :: string
  isConfigured :: bool

record browser =
  component :: connector
  localStorage :: "string \<rightharpoonup> string"
  console :: "string list"

definition setOpen :: "bool \<Rightarrow> browser \<Rightarrow> browser" where
  "setOpen b w = w\<lparr>component := (component w)\<lparr>menu_open := b\<rparr>\<rparr>"

definition setSecretInputValue :: "string \<Rightarrow> browser \<Rightarrow> browser" where
  "setSecretInputValue v w = w\<lparr>component := (component w)\<lparr>secretInputValue := v\<rparr>\<rparr>"

definition setIsConfigured :: "bool \<Rightarrow> browser \<Rightarrow> browser" where
  "setIsConfigured b w = w\<lparr>component := (component w)\<lparr>isConfigured := b\<rparr>\<rparr>"

definition console_log :: "string \<Rightarrow> browser \<Rightarrow> browser" where
  "console_log line w = w\<lparr>console := console w @ [line]\<rparr>"

definition setItem :: "string \<Rightarrow> string \<Rightarrow> browser \<Rightarrow> browser" where
  "setItem k v w = w\<lparr>localStorage := (localStorage w)(k \<mapsto> v)\<rparr>"

definition removeItem :: "string \<Rightarrow> browser \<Rightarrow> browser" where
  "removeItem k w = w\<lparr>localStorage := (localStorage w)(k := None)\<rparr>"

text \<open>The initial values of the state cells: \<open>useState(false)\<close>, \<open>useState('')\<close>, \<open>useState(false)\<close>.\<close>

definition initial_connector :: connector where
  "initial_connector = \<lparr>menu_open = False, secretInputValue = [], isConfigured = False\<rparr>"

text \<open>The effect that runs once after the component is mounted.\<close>

definition useEffect :: "browser \<Rightarrow> browser" where
  "useEffect w =
     (let storedToken = localStorage w NOTION_TOKEN_LOCAL_STORAGE_KEY in
      if truthy_nullable storedToken then setIsConfigured True w
      else setSecretInputValue [] (setIsConfigured False w))"

text \<open>
  Initialising the component against a browser: fresh state cells, then the effect. The
  storage and the console are the browser's and stay.
\<close>

definition NotionConnector :: "browser \<Rightarrow> browser" where
  "NotionConnector w = useEffect (w\<lparr>component := initial_connector\<rparr>)"

definition handleSaveSecret :: "string \<Rightarrow> browser \<Rightarrow> browser" where
  "handleSaveSecret chatId w =
     (if truthy_string (trim (secretInputValue (component w))) then
        setOpen False
          (setIsConfigured True
            (console_log
               (''Saved Notion Integration Secret for chat '' @ chatId @ '' to local storage.'')
               (setItem NOTION_TOKEN_LOCAL_STORAGE_KEY (trim (secretInputValue (component w))) w)))
      else w)"

definition handleSaveOnCloud :: "string \<Rightarrow> browser \<Rightarrow> browser" where
  "handleSaveOnCloud chatId w =
     (if truthy_string (trim (secretInputValue (component w))) then
        console_log
          (''Simulating save on cloud for Notion Integration Secret for chat '' @ chatId @ '': ''
             @ take 5 (secretInputValue (component w)) @ ''...'')
          w
      else w)"

definition handleClearSecret :: "string \<Rightarrow> browser \<Rightarrow> browser" where
  "handleClearSecret chatId w =
     setIsConfigured False
       (setSecretInputValue []
         (console_log
            (''Cleared Notion Integration Secret for chat '' @ chatId @ '' from local storage.'')
            (removeItem NOTION_TOKEN_LOCAL_STORAGE_KEY w)))"

text \<open>
  What the component renders from its props and state: the trigger button, the input and
  its hint paragraphs, and the three action buttons. The stored secret is not an input of
  the rendering.
\<close>

datatype icon = GlobeIcon | WarningIcon

record view =
  buttonLabel :: string
  buttonIcon :: icon
  dropdown_open :: bool
  input_id :: string
  input_value :: string
  hints :: "string list"
  disconnect_shown :: bool
  save_label :: string
  save_disabled :: bool
  cloud_disabled :: bool

definition render :: "string \<Rightarrow> connector \<Rightarrow> view" where
  "render chatId c =
     \<lparr>buttonLabel = (if isConfigured c then ''Notion Connected'' else ''Connect Notion''),
      buttonIcon = (if isConfigured c then GlobeIcon else WarningIcon),
      dropdown_open = menu_open c,
      input_id = ''notion-secret-input-'' @ chatId,
      input_value = secretInputValue c,
      hints =
        (if \<not> isConfigured c
         then [''Enter your Notion integration token to connect this chat.''] else [])
        @ (if isConfigured c \<and> truthy_string (secretInputValue c)
           then ['' You are about to update the existing configuration.''] else [])
        @ (if isConfigured c \<and> \<not> truthy_string (secretInputValue c)
           then [''Notion is configured. Enter a new secret to update.''] else []),
      disconnect_shown = isConfigured c,
      save_label = (if isConfigured c then ''Update Secret'' else ''Save Secret''),
      save_disabled = (\<not> truthy_string (trim (secretInputValue c))),
      cloud_disabled = (\<not> truthy_string (trim (secretInputValue c)))\<rparr>"

text \<open>
  The user's actions on the rendered component. A disabled button does not fire its
  handler and the Disconnect button exists only while the component is configured; a
  reload initialises the component again on the same storage.
\<close>

datatype action =
    Type string
  | OpenChange bool
  | ClickSave
  | ClickSaveOnCloud
  | ClickDisconnect
  | Reload

fun act :: "string \<Rightarrow> action \<Rightarrow> browser \<Rightarrow> browser" where
  "act chatId (Type v) w = setSecretInputValue v w"
| "act chatId (OpenChange b) w = setOpen b w"
| "act chatId ClickSave w =
     (if save_disabled (render chatId (component w)) then w else handleSaveSecret chatId w)"
| "act chatId ClickSaveOnCloud w =
     (if cloud_disabled (render chatId (component w)) then w else handleSaveOnCloud chatId w)"
| "act chatId ClickDisconnect w =
     (if disconnect_shown (render chatId (component w)) then handleClearSecret chatId w else w)"
| "act chatId Reload w = NotionConnector w"

text \<open>What an observer sees of a browser: the rendered component and the console.\<close>

definition observe :: "string \<Rightarrow> browser \<Rightarrow> view \<times> string list" where
  "observe chatId w = (render chatId (component w), console w)"

text \<open>
  A session: the component is initialised on a storage, then the actions happen in order.
  The result lists what is observed after the initialisation and after each action.
\<close>

fun observations :: "string \<Rightarrow> action list \<Rightarrow> browser \<Rightarrow> (view \<times> string list) list" where
  "observations chatId [] w = [observe chatId w]"
| "observations chatId (a # as) w = observe chatId w # observations chatId as (act chatId a w)"

definition session :: "string \<Rightarrow> (string \<rightharpoonup> string) \<Rightarrow> action list \<Rightarrow> (view \<times> string list) list" where
  "session chatId store as =
     observations chatId as
       (NotionConnector \<lparr>component = initial_connector, localStorage = store, console = []\<rparr>)"

fun run :: "string \<Rightarrow> action list \<Rightarrow> browser \<Rightarrow> browser" where
  "run chatId [] w = w"
| "run chatId (a # as) w = run chatId as (act chatId a w)"

section \<open>JSON values and the JavaScript operations the adapters use\<close>

text \<open>
  A decoded JSON value. An object lists its entries in insertion order and is read by key
  with \<open>field\<close>; \<open>undefined\<close> is \<open>None\<close>. Numbers are rationals, which every finite
  double is.
\<close>

datatype json =
    JNull
  | JBool bool
  | JNumber rat
  | JString string
  | JArray "json list"
  | JObject "(string \<times> json) list"

definition field :: "json \<Rightarrow> string \<Rightarrow> json option" where
  "field v k = (case v of JObject kvs \<Rightarrow> map_of kvs k | _ \<Rightarrow> None)"

text \<open>Truthiness: what \<open>if (x)\<close> tests.\<close>

fun truthy :: "json option \<Rightarrow> bool" where
  "truthy None = False"
| "truthy (Some JNull) = False"
| "truthy (Some (JBool b)) = b"
| "truthy (Some (JNumber r)) = (r \<noteq> 0)"
| "truthy (Some (JString s)) = truthy_string s"
| "truthy (Some (JArray xs)) = True"
| "truthy (Some (JObject kvs)) = True"

text \<open>
  An object literal or an object built by assignments, as \<open>JSON.stringify\<close> sends it: an
  entry whose value is \<open>undefined\<close> is left out.
\<close>

fun object_of :: "(string \<times> json option) list \<Rightarrow> (string \<times> json) list" where
  "object_of [] = []"
| "object_of ((k, None) # es) = object_of es"
| "object_of ((k, Some v) # es) = (k, v) # object_of es"

text \<open>
  The adapters' \<open>execute\<close> functions receive the output of their schema, so a field the
  schema types as a string holds a string. \<open>string_of\<close> reads such a field where the source
  interpolates it into a template literal or appends it to a query. The status code of a
  response is printed in decimal.
\<close>

fun string_of_nat :: "nat \<Rightarrow> string" where
  "string_of_nat n =
     (if n < 10 then [''0123456789'' ! n]
      else string_of_nat (n div 10) @ [''0123456789'' ! (n mod 10)])"

declare string_of_nat.simps [simp del]

definition string_of_int :: "int \<Rightarrow> string" where
  "string_of_int i = (if i < 0 then ''-'' @ string_of_nat (nat (- i)) else string_of_nat (nat i))"

definition string_of :: "json option \<Rightarrow> string" where
  "string_of v = (case v of Some (JString s) \<Rightarrow> s | _ \<Rightarrow> [])"

text \<open>\<open>s.split(c)\<close> for a separator of one character: the empty string splits into one empty piece.\<close>

fun split :: "char \<Rightarrow> string \<Rightarrow> string list" where
  "split c [] = [[]]"
| "split c (x # xs) =
     (if x = c then [] # split c xs
      else (case split c xs of [] \<Rightarrow> [[x]] | w # ws \<Rightarrow> (x # w) # ws))"

fun join :: "string \<Rightarrow> string list \<Rightarrow> string" where
  "join sep [] = []"
| "join sep [x] = x"
| "join sep (x # y # ys) = x @ sep @ join sep (y # ys)"

subsection \<open>\<open>URLSearchParams\<close> and \<open>URL\<close>\<close>

text \<open>
  A \<open>URLSearchParams\<close> object is its list of name-value pairs. \<open>toString\<close> is the
  \<open>application/x-www-form-urlencoded\<close> serialiser: letters, digits and \<open>* - . _\<close> stay, a
  space becomes \<open>+\<close>, every other code unit is percent-encoded as its UTF-8 bytes.
\<close>

definition hex_byte :: "nat \<Rightarrow> string" where
  "hex_byte n = [CHR ''%'', ''0123456789ABCDEF'' ! (n div 16), ''0123456789ABCDEF'' ! (n mod 16)]"

definition urlencode_char :: "char \<Rightarrow> string" where
  "urlencode_char c =
     (let n = (of_char c :: nat) in
      if (48 \<le> n \<and> n \<le> 57) \<or> (65 \<le> n \<and> n \<le> 90) \<or> (97 \<le> n \<and> n \<le> 122)
         \<or> c = CHR ''*'' \<or> c = CHR ''-'' \<or> c = CHR ''.'' \<or> c = CHR ''_'' then [c]
      else if c = CHR '' '' then ''+''
      else if n < 128 then hex_byte n
      else hex_byte (192 + n div 64) @ hex_byte (128 + n mod 64))"

definition urlencode :: "string \<Rightarrow> string" where
  "urlencode s = concat (map urlencode_char s)"

definition URLSearchParams_append ::
  "string \<Rightarrow> string \<Rightarrow> (string \<times> string) list \<Rightarrow> (string \<times> string) list" where
  "URLSearchParams_append name v params = params @ [(name, v)]"

definition URLSearchParams_toString :: "(string \<times> string) list \<Rightarrow> string" where
  "URLSearchParams_toString params =
     join ''&'' (map (\<lambda>(name, v). urlencode name @ ''='' @ urlencode v) params)"

text \<open>
  A \<open>URL\<close> object, as far as the page-retrieval adapter uses one: the serialised URL up
  to the query, the query, the fragment, and the \<open>searchParams\<close> list of the query's
  name-value pairs. The parser that \<open>new URL\<close> runs is the platform's (see below).
\<close>

record URL =
  before_query :: string
  query :: "string option"
  fragment :: "string option"
  searchParams :: "(string \<times> string) list"

text \<open>\<open>url.searchParams.append\<close>: the pair joins the list and the URL's query becomes the list's serialisation.\<close>

definition searchParams_append :: "string \<Rightarrow> string \<Rightarrow> URL \<Rightarrow> URL" where
  "searchParams_append name v u =
     (let params = URLSearchParams_append name v (searchParams u);
          serialized = URLSearchParams_toString params
      in u\<lparr>searchParams := params,
           query := (if serialized = [] then None else Some serialized)\<rparr>)"

definition URL_toString :: "URL \<Rightarrow> string" where
  "URL_toString u =
     before_query u
       @ (case query u of None \<Rightarrow> [] | Some q \<Rightarrow> ''?'' @ q)
       @ (case fragment u of None \<Rightarrow> [] | Some f \<Rightarrow> ''#'' @ f)"

subsection \<open>Exceptions, \<open>fetch\<close> and the network\<close>

text \<open>
  A thrown value is an \<open>Error\<close> with its message or another value with the string
  \<open>String(...)\<close> makes of it; a computation that may throw returns \<open>Inl\<close> of the thrown value.
\<close>

datatype thrown = Error string | NotAnError string

fun error_text :: "thrown \<Rightarrow> string" where
  "error_text (Error message) = message"
| "error_text (NotAnError shown) = shown"

subsection \<open>The platform\<close>

text \<open>
  Three functions of the JavaScript platform are parameters of the model: \<open>JSON.parse\<close>,
  the parser of \<open>new URL\<close> (the adapters hand it an absolute URL with a fixed host, on
  which it does not throw; it rewrites the path, the query and the fragment as the URL
  standard says), and the printing of a number that is not an integer of magnitude below
  \<open>10^21\<close> (exponent notation, shortest digits).
\<close>

record platform =
  JSON_parse :: "string \<Rightarrow> thrown + json"
  URL_new :: "string \<Rightarrow> URL"
  Number_toString :: "rat \<Rightarrow> string"

text \<open>
  \<open>Number.prototype.toString\<close>: an integer of magnitude below \<open>10^21\<close> prints in decimal.
  \<open>toString\<close> is the method call \<open>page_size.toString()\<close> on a field typed as a number: on
  \<open>null\<close> and \<open>undefined\<close> the call throws a \<open>TypeError\<close> (the messages are V8's).
  \<open>String_of_number\<close> is \<open>String(page_size)\<close>, which does not throw. Both are applied where
  the schema admits a number only; on another value they print it as JavaScript does: a
  boolean or a string as itself, an array as its elements joined by commas (\<open>null\<close> as the
  empty text), an object as \<open>[object Object]\<close>.
\<close>

definition Number_prototype_toString :: "platform \<Rightarrow> rat \<Rightarrow> string" where
  "Number_prototype_toString P r =
     (if r = of_int \<lfloor>r\<rfloor> \<and> \<bar>r\<bar> < 10 ^ 21 then string_of_int \<lfloor>r\<rfloor> else Number_toString P r)"

fun String_of_json :: "platform \<Rightarrow> json \<Rightarrow> string" where
  "String_of_json P JNull = ''null''"
| "String_of_json P (JBool b) = (if b then ''true'' else ''false'')"
| "String_of_json P (JNumber r) = Number_prototype_toString P r"
| "String_of_json P (JString s) = s"
| "String_of_json P (JArray xs) =
     join '','' (map (\<lambda>x. if x = JNull then [] else String_of_json P x) xs)"
| "String_of_json P (JObject kvs) = ''[object Object]''"

fun String_of_number :: "platform \<Rightarrow> json option \<Rightarrow> string" where
  "String_of_number P None = ''undefined''"
| "String_of_number P (Some v) = String_of_json P v"

definition toString :: "platform \<Rightarrow> json option \<Rightarrow> thrown + string" where
  "toString P v =
     (if v = None then Inl (Error ''Cannot read properties of undefined (reading 'toString')'')
      else if v = Some JNull then Inl (Error ''Cannot read properties of null (reading 'toString')'')
      else Inr (String_of_number P v))"

record request =
  url :: string
  http_method :: string
  headers :: "(string \<times> string) list"
  body :: "json option"

text \<open>
  A response is its status and what \<open>response.json()\<close> gives: the decoded body, or the
  throw for a body that is not JSON. \<open>response.ok\<close> holds for a status from 200 to 299.
\<close>

record response =
  status :: nat
  json_result :: "thrown + json"

definition ok :: "response \<Rightarrow> bool" where
  "ok r = (200 \<le> status r \<and> status r \<le> 299)"

text \<open>
  The network answers a request with a response or a throw, and may answer differently
  after the requests made before. \<open>fetch\<close> appends the request to the list of requests sent so far.
\<close>

type_synonym network = "request list \<Rightarrow> request \<Rightarrow> thrown + response"

definition fetch :: "network \<Rightarrow> request \<Rightarrow> request list \<Rightarrow> (thrown + response) \<times> request list" where
  "fetch net req sent = (net sent req, sent @ [req])"

definition NOTION_API_VERSION :: string where
  "NOTION_API_VERSION = ''2022-06-28''"

definition NOTION_API_BASE_URL :: string where
  "NOTION_API_BASE_URL = ''https://api.notion.com/v1''"

definition notion_headers :: "string \<Rightarrow> (string \<times> string) list" where
  "notion_headers notionToken =
     [(''Authorization'', ''Bearer '' @ notionToken),
      (''Notion-Version'', NOTION_API_VERSION),
      (''Content-Type'', ''application/json'')]"

text \<open>
  Every adapter ends in the same \<open>try\<close> block, up to its two messages (its console output
  is not modelled). Inside \<open>try\<close>: the \<open>fetch\<close>, then for a response that is not ok the
  error object with the decoded body, else the decoded body.
\<close>

definition respond :: "string \<Rightarrow> response \<Rightarrow> thrown + json" where
  "respond failed_with_status response =
     (if \<not> ok response then
        (case json_result response of
           Inl e \<Rightarrow> Inl e
         | Inr errorData \<Rightarrow>
             Inr (JObject
               [(''error'', JString (failed_with_status @ string_of_nat (status response))),
                (''details'', errorData)]))
      else json_result response)"

text \<open>The \<open>catch\<close> block.\<close>

definition catch :: "string \<Rightarrow> thrown \<Rightarrow> json" where
  "catch failure_message error =
     JObject [(''error'', JString failure_message), (''details'', JString (error_text error))]"

definition try_fetch ::
  "network \<Rightarrow> request \<Rightarrow> string \<Rightarrow> string \<Rightarrow> request list \<Rightarrow> (thrown + json) \<times> request list" where
  "try_fetch net req failed_with_status failure_message sent =
     (case fetch net req sent of
        (Inl error, sent') \<Rightarrow> (Inr (catch failure_message error), sent')
      | (Inr response, sent') \<Rightarrow>
          (case respond failed_with_status response of
             Inl error \<Rightarrow> (Inr (catch failure_message error), sent')
           | Inr result \<Rightarrow> (Inr result, sent')))"

text \<open>The guard of the adapters that a factory binds to a token: \<open>if (!notionToken) return {error: ...}\<close>.\<close>

definition token_not_configured :: json where
  "token_not_configured =
     JObject [(''error'', JString
       ''Notion API integration token is not configured. Please configure it in the Notion Connector settings.'')]"

definition with_token ::
  "string option \<Rightarrow> request list \<Rightarrow> (string \<Rightarrow> (thrown + json) \<times> request list)
     \<Rightarrow> (thrown + json) \<times> request list" where
  "with_token notionToken sent continue =
     (case notionToken of
        None \<Rightarrow> (Inr token_not_configured, sent)
      | Some token \<Rightarrow>
          if truthy_string token then continue token else (Inr token_not_configured, sent))"

section \<open>The tool adapters\<close>

text \<open>
  An adapter's \<open>execute\<close> function, for the token its factory bound (\<open>None\<close> is \<open>null\<close>),
  the argument object, the network and the requests sent so far: it returns or throws,
  and gives back the requests sent. The arguments are destructured with \<open>field\<close>.
  \<open>assign_if\<close> is an assignment to the request body under an \<open>if\<close>.
\<close>

type_synonym execution = "(thrown + json) \<times> request list"

definition assign_if :: "bool \<Rightarrow> string \<Rightarrow> json option \<Rightarrow> (string \<times> json) list" where
  "assign_if condition k v = (if condition then object_of [(k, v)] else [])"

text \<open>The rest of an object after destructuring the named keys: \<open>const {a, b, ...rest} = params\<close>.\<close>

definition object_rest :: "json \<Rightarrow> string list \<Rightarrow> (string \<times> json) list" where
  "object_rest v names =
     (case v of JObject kvs \<Rightarrow> filter (\<lambda>(k, x). \<not> List.member names k) kvs | _ \<Rightarrow> [])"

definition notionRetrieveABlock :: "string option \<Rightarrow> json \<Rightarrow> network \<Rightarrow> request list \<Rightarrow> execution" where
  "notionRetrieveABlock notionToken args net sent =
     with_token notionToken sent (\<lambda>token.
       let block_id = field args ''block_id'';
           url = NOTION_API_BASE_URL @ ''/blocks/'' @ string_of block_id
       in try_fetch net
         \<lparr>url = url, http_method = ''GET'',
          headers = notion_headers token, body = None\<rparr>
         ''Notion API request (retrieve-a-block) failed with status ''
         ''Failed to execute Notion retrieve-a-block due to a network or unexpected error.''
         sent)"

definition notionDeleteABlock :: "string option \<Rightarrow> json \<Rightarrow> network \<Rightarrow> request list \<Rightarrow> execution" where
  "notionDeleteABlock notionToken args net sent =
     with_token notionToken sent (\<lambda>token.
       let block_id = field args ''block_id'';
           url = NOTION_API_BASE_URL @ ''/blocks/'' @ string_of block_id
       in try_fetch net
         \<lparr>url = url, http_method = ''DELETE'',
          headers = notion_headers token, body = None\<rparr>
         ''Notion API request (delete-a-block) failed with status ''
         ''Failed to execute Notion delete-a-block due to a network or unexpected error.''
         sent)"

definition notionRetrieveADatabase :: "string option \<Rightarrow> json \<Rightarrow> network \<Rightarrow> request list \<Rightarrow> execution" where
  "notionRetrieveADatabase notionToken args net sent =
     with_token notionToken sent (\<lambda>token.
       let database_id = field args ''database_id'';
           url = NOTION_API_BASE_URL @ ''/databases/'' @ string_of database_id
       in try_fetch net
         \<lparr>url = url, http_method = ''GET'',
          headers = notion_headers token, body = None\<rparr>
         ''Notion API request failed with status ''
         ''Failed to execute Notion retrieve database due to a network or unexpected error.''
         sent)"

definition notionGetUser :: "string option \<Rightarrow> json \<Rightarrow> network \<Rightarrow> request list \<Rightarrow> execution" where
  "notionGetUser notionToken args net sent =
     with_token notionToken sent (\<lambda>token.
       let user_id = field args ''user_id'';
           url = NOTION_API_BASE_URL @ ''/users/'' @ string_of user_id
       in try_fetch net
         \<lparr>url = url, http_method = ''GET'',
          headers = notion_headers token, body = None\<rparr>
         ''Notion API request failed with status ''
         ''Failed to execute Notion get user due to a network or unexpected error.''
         sent)"

definition notionGetSelf :: "string option \<Rightarrow> json \<Rightarrow> network \<Rightarrow> request list \<Rightarrow> execution" where
  "notionGetSelf notionToken args net sent =
     with_token notionToken sent (\<lambda>token.
       try_fetch net
         \<lparr>url = NOTION_API_BASE_URL @ ''/users/me'', http_method = ''GET'',
          headers = notion_headers token, body = None\<rparr>
         ''Notion API request failed with status ''
         ''Failed to execute Notion get-self due to a network or unexpected error.''
         sent)"

text \<open>
  The two adapters that are not built by a factory: the token is an argument their schema
  declares, and there is no guard on it. The second is the \<open>notionGetUser\<close> of the
  sources that takes the token this way.
\<close>

definition notionGetUser_with_token_argument :: "json \<Rightarrow> network \<Rightarrow> request list \<Rightarrow> execution" where
  "notionGetUser_with_token_argument args net sent =
     (let notionToken = field args ''notionToken'';
          user_id = field args ''user_id'';
          token = string_of notionToken
      in try_fetch net
         \<lparr>url = NOTION_API_BASE_URL @ ''/users/'' @ string_of user_id, http_method = ''GET'',
          headers = notion_headers token, body = None\<rparr>
         ''Notion API request failed with status ''
         ''Failed to execute Notion get user due to a network or unexpected error.''
         sent)"

definition notionPostSearch :: "json \<Rightarrow> network \<Rightarrow> request list \<Rightarrow> execution" where
  "notionPostSearch args net sent =
     (let notionToken = field args ''notionToken'';
          query = field args ''query'';
          sort = field args ''sort'';
          filter = field args ''filter'';
          start_cursor = field args ''start_cursor'';
          page_size = field args ''page_size'';
          token = string_of notionToken;
          requestBody =
            object_of [(''query'', query)]
            @ assign_if (truthy sort) ''sort'' sort
            @ assign_if (truthy filter) ''filter'' filter
            @ assign_if (truthy start_cursor) ''start_cursor'' start_cursor
            @ assign_if (truthy page_size) ''page_size'' page_size
      in try_fetch net
         \<lparr>url = NOTION_API_BASE_URL @ ''/search'', http_method = ''POST'',
          headers = notion_headers token, body = Some (JObject requestBody)\<rparr>
         ''Notion API request failed with status ''
         ''Failed to execute Notion search due to a network or unexpected error.''
         sent)"

text \<open>The adapters with a query string built from optional arguments.\<close>

definition notionGetUsers ::
  "platform \<Rightarrow> string option \<Rightarrow> json \<Rightarrow> network \<Rightarrow> request list \<Rightarrow> execution" where
  "notionGetUsers P notionToken args net sent =
     with_token notionToken sent (\<lambda>token.
       let start_cursor = field args ''start_cursor'';
           page_size = field args ''page_size'';
           queryParams = [];
           queryParams =
             (if truthy start_cursor
              then URLSearchParams_append ''start_cursor'' (string_of start_cursor) queryParams
              else queryParams)
       in case (if page_size \<noteq> None
                then map_sum id (\<lambda>text. URLSearchParams_append ''page_size'' text queryParams)
                       (toString P page_size)
                else Inr queryParams) of
            Inl error \<Rightarrow> (Inl error, sent)
          | Inr queryParams \<Rightarrow>
              (let url = NOTION_API_BASE_URL @ ''/users''
                     @ (if truthy_string (URLSearchParams_toString queryParams)
                        then ''?'' @ URLSearchParams_toString queryParams else [])
               in try_fetch net
                    \<lparr>url = url, http_method = ''GET'',
                     headers = notion_headers token, body = None\<rparr>
                    ''Notion API request (get-users) failed with status ''
                    ''Failed to execute Notion get-users due to a network or unexpected error.''
                    sent))"

definition notionGetBlockChildren ::
  "platform \<Rightarrow> string option \<Rightarrow> json \<Rightarrow> network \<Rightarrow> request list \<Rightarrow> execution" where
  "notionGetBlockChildren P notionToken args net sent =
     with_token notionToken sent (\<lambda>token.
       let block_id = field args ''block_id'';
           start_cursor = field args ''start_cursor'';
           page_size = field args ''page_size'';
           queryParams = [];
           queryParams =
             (if truthy start_cursor
              then URLSearchParams_append ''start_cursor'' (string_of start_cursor) queryParams
              else queryParams)
       in case (if page_size \<noteq> None
                then map_sum id (\<lambda>text. URLSearchParams_append ''page_size'' text queryParams)
                       (toString P page_size)
                else Inr queryParams) of
            Inl error \<Rightarrow> (Inl error, sent)
          | Inr queryParams \<Rightarrow>
              (let url = NOTION_API_BASE_URL @ ''/blocks/'' @ string_of block_id @ ''/children''
                     @ (if truthy_string (URLSearchParams_toString queryParams)
                        then ''?'' @ URLSearchParams_toString queryParams else [])
               in try_fetch net
                    \<lparr>url = url, http_method = ''GET'',
                     headers = notion_headers token, body = None\<rparr>
                    ''Notion API request (get-block-children) failed with status ''
                    ''Failed to execute Notion get-block-children due to a network or unexpected error.''
                    sent))"

definition notionRetrieveAComment ::
  "platform \<Rightarrow> string option \<Rightarrow> json \<Rightarrow> network \<Rightarrow> request list \<Rightarrow> execution" where
  "notionRetrieveAComment P notionToken args net sent =
     with_token notionToken sent (\<lambda>token.
       let block_id = field args ''block_id'';
           page_size = field args ''page_size'';
           start_cursor = field args ''start_cursor'';
           queryParams = [];
           queryParams = URLSearchParams_append ''block_id'' (string_of block_id) queryParams;
           queryParams =
             (if truthy page_size
              then URLSearchParams_append ''page_size'' (String_of_number P page_size) queryParams
              else queryParams);
           queryParams =
             (if truthy start_cursor
              then URLSearchParams_append ''start_cursor'' (string_of start_cursor) queryParams
              else queryParams);
           queryString = URLSearchParams_toString queryParams;
           url = NOTION_API_BASE_URL @ ''/comments?'' @ queryString
       in try_fetch net
         \<lparr>url = url, http_method = ''GET'',
          headers = notion_headers token, body = None\<rparr>
         ''Notion API request failed with status ''
         ''Failed to execute Notion retrieve comment due to a network or unexpected error.''
         sent)"

definition notionRetrieveAPageProperty ::
  "platform \<Rightarrow> string option \<Rightarrow> json \<Rightarrow> network \<Rightarrow> request list \<Rightarrow> execution" where
  "notionRetrieveAPageProperty P notionToken args net sent =
     with_token notionToken sent (\<lambda>token.
       let page_id = field args ''page_id'';
           property_id = field args ''property_id'';
           page_size = field args ''page_size'';
           start_cursor = field args ''start_cursor'';
           queryParams = [];
           queryParams =
             (if truthy page_size
              then URLSearchParams_append ''page_size'' (String_of_number P page_size) queryParams
              else queryParams);
           queryParams =
             (if truthy start_cursor
              then URLSearchParams_append ''start_cursor'' (string_of start_cursor) queryParams
              else queryParams);
           queryString = URLSearchParams_toString queryParams;
           url = NOTION_API_BASE_URL @ ''/pages/'' @ string_of page_id @ ''/properties/''
                 @ string_of property_id
                 @ (if truthy_string queryString then ''?'' @ queryString else [])
       in try_fetch net
         \<lparr>url = url, http_method = ''GET'',
          headers = notion_headers token, body = None\<rparr>
         ''Notion API request failed with status ''
         ''Failed to execute Notion retrieve page property due to a network or unexpected error.''
         sent)"

text \<open>
  The page-retrieval adapter builds its URL with a \<open>URL\<close> object and appends one
  \<open>filter_properties\<close> parameter for each piece of the comma-separated argument, trimmed.
  Only a string has \<open>split\<close>: on any other truthy value the call throws, before the
  \<open>try\<close> block.
\<close>

definition notionRetrieveAPage ::
  "platform \<Rightarrow> string option \<Rightarrow> json \<Rightarrow> network \<Rightarrow> request list \<Rightarrow> execution" where
  "notionRetrieveAPage P notionToken args net sent =
     with_token notionToken sent (\<lambda>token.
       let page_id = field args ''page_id'';
           filter_properties = field args ''filter_properties'';
           urlString = NOTION_API_BASE_URL @ ''/pages/'' @ string_of page_id;
           url = URL_new P urlString
       in case (if truthy filter_properties then
                  (case filter_properties of
                     Some (JString text) \<Rightarrow>
                       (let propertiesToFilter = split (CHR '','') text
                        in Inr (foldl (\<lambda>u propId. searchParams_append ''filter_properties'' (trim propId) u)
                                  url propertiesToFilter))
                   | _ \<Rightarrow> Inl (Error ''filter_properties.split is not a function''))
                else Inr url) of
            Inl error \<Rightarrow> (Inl error, sent)
          | Inr url \<Rightarrow>
              try_fetch net
                \<lparr>url = URL_toString url, http_method = ''GET'',
                 headers = notion_headers token, body = None\<rparr>
                ''Notion API request (retrieve-a-page) failed with status ''
                ''Failed to execute Notion retrieve-a-page due to a network or unexpected error.''
                sent)"

text \<open>The adapters that send a request body.\<close>

definition notionCreateAComment :: "string option \<Rightarrow> json \<Rightarrow> network \<Rightarrow> request list \<Rightarrow> execution" where
  "notionCreateAComment notionToken args net sent =
     with_token notionToken sent (\<lambda>token.
       let parent = field args ''parent'';
           rich_text = field args ''rich_text'';
           requestBody = object_of [(''parent'', parent), (''rich_text'', rich_text)];
           url = NOTION_API_BASE_URL @ ''/comments''
       in try_fetch net
         \<lparr>url = url, http_method = ''POST'',
          headers = notion_headers token, body = Some (JObject requestBody)\<rparr>
         ''Notion API request failed with status ''
         ''Failed to execute Notion create comment due to a network or unexpected error.''
         sent)"

definition notionPatchPage :: "string option \<Rightarrow> json \<Rightarrow> network \<Rightarrow> request list \<Rightarrow> execution" where
  "notionPatchPage notionToken args net sent =
     with_token notionToken sent (\<lambda>token.
       let page_id = field args ''page_id'';
           properties = field args ''properties'';
           archived = field args ''archived'';
           icon = field args ''icon'';
           cover = field args ''cover'';
           url = NOTION_API_BASE_URL @ ''/pages/'' @ string_of page_id;
           requestBody =
             assign_if (properties \<noteq> None) ''properties'' properties
             @ assign_if (archived \<noteq> None) ''archived'' archived
             @ assign_if (icon \<noteq> None) ''icon'' icon
             @ assign_if (cover \<noteq> None) ''cover'' cover
       in try_fetch net
         \<lparr>url = url, http_method = ''PATCH'',
          headers = notion_headers token, body = Some (JObject requestBody)\<rparr>
         ''Notion API request (patch-page) failed with status ''
         ''Failed to execute Notion patch-page due to a network or unexpected error.''
         sent)"

definition notionPostDatabaseQuery :: "string option \<Rightarrow> json \<Rightarrow> network \<Rightarrow> request list \<Rightarrow> execution" where
  "notionPostDatabaseQuery notionToken args net sent =
     with_token notionToken sent (\<lambda>token.
       let database_id = field args ''database_id'';
           filter = field args ''filter'';
           sorts = field args ''sorts'';
           start_cursor = field args ''start_cursor'';
           page_size = field args ''page_size'';
           archived = field args ''archived'';
           in_trash = field args ''in_trash'';
           url = NOTION_API_BASE_URL @ ''/databases/'' @ string_of database_id @ ''/query'';
           requestBody =
             assign_if (truthy filter) ''filter'' filter
             @ assign_if (truthy sorts) ''sorts'' sorts
             @ assign_if (truthy start_cursor) ''start_cursor'' start_cursor
             @ assign_if (page_size \<noteq> None) ''page_size'' page_size
             @ assign_if (archived \<noteq> None) ''archived'' archived
             @ assign_if (in_trash \<noteq> None) ''in_trash'' in_trash
       in try_fetch net
         \<lparr>url = url, http_method = ''POST'',
          headers = notion_headers token, body = Some (JObject requestBody)\<rparr>
         ''Notion API request (post-database-query) failed with status ''
         ''Failed to execute Notion post-database-query due to a network or unexpected error.''
         sent)"

definition notionPatchBlockChildren :: "string option \<Rightarrow> json \<Rightarrow> network \<Rightarrow> request list \<Rightarrow> execution" where
  "notionPatchBlockChildren notionToken args net sent =
     with_token notionToken sent (\<lambda>token.
       let block_id = field args ''block_id'';
           children = field args ''children'';
           after = field args ''after'';
           requestBody =
             object_of [(''children'', children)]
             @ assign_if (truthy after) ''after'' after;
           url = NOTION_API_BASE_URL @ ''/blocks/'' @ string_of block_id @ ''/children''
       in try_fetch net
         \<lparr>url = url, http_method = ''PATCH'',
          headers = notion_headers token, body = Some (JObject requestBody)\<rparr>
         ''Notion API request (patch-block-children) failed with status ''
         ''Failed to execute Notion patch-block-children due to a network or unexpected error.''
         sent)"

definition notionPostPage :: "string option \<Rightarrow> json \<Rightarrow> network \<Rightarrow> request list \<Rightarrow> execution" where
  "notionPostPage notionToken args net sent =
     with_token notionToken sent (\<lambda>token.
       let parent = field args ''parent'';
           properties = field args ''properties'';
           children = field args ''children'';
           icon = field args ''icon'';
           cover = field args ''cover'';
           requestBody =
             object_of [(''parent'', parent), (''properties'', properties)]
             @ assign_if (truthy children) ''children'' children
             @ assign_if (truthy icon) ''icon'' icon
             @ assign_if (truthy cover) ''cover'' cover
       in try_fetch net
         \<lparr>url = NOTION_API_BASE_URL @ ''/pages'', http_method = ''POST'',
          headers = notion_headers token, body = Some (JObject requestBody)\<rparr>
         ''Notion API request failed with status ''
         ''Failed to execute Notion create page due to a network or unexpected error.''
         sent)"

text \<open>
  Three adapters can return before the \<open>try\<close> block for a reason of their own: no
  update to send, or a \<open>propertiesJson\<close> that \<open>JSON.parse\<close> rejects. The block-update
  adapter sends the first of the block-specific updates, in the order of the object's keys.
\<close>

definition notionUpdateABlock :: "string option \<Rightarrow> json \<Rightarrow> network \<Rightarrow> request list \<Rightarrow> execution" where
  "notionUpdateABlock notionToken params net sent =
     with_token notionToken sent (\<lambda>token.
       let block_id = field params ''block_id'';
           archived = field params ''archived'';
           blockSpecificUpdates = object_rest params [''block_id'', ''archived''];
           requestBody =
             assign_if (archived \<noteq> None) ''archived'' archived
             @ take 1 blockSpecificUpdates
       in if length requestBody = 0 then
            (Inr (JObject [(''error'',
               JString ''No update operation specified (archived or block content).'')]), sent)
          else
            (let url = NOTION_API_BASE_URL @ ''/blocks/'' @ string_of block_id
             in try_fetch net
         \<lparr>url = url, http_method = ''PATCH'',
          headers = notion_headers token, body = Some (JObject requestBody)\<rparr>
         ''Notion API request (update-a-block) failed with status ''
         ''Failed to execute Notion update-a-block due to a network or unexpected error.''
         sent))"

definition notionUpdateADatabase :: "string option \<Rightarrow> json \<Rightarrow> network \<Rightarrow> request list \<Rightarrow> execution" where
  "notionUpdateADatabase notionToken args net sent =
     with_token notionToken sent (\<lambda>token.
       let database_id = field args ''database_id'';
           title = field args ''title'';
           description = field args ''description'';
           properties = field args ''properties'';
           requestBody =
             assign_if (truthy title) ''title'' title
             @ assign_if (truthy description) ''description'' description
             @ assign_if (truthy properties) ''properties'' properties
       in if length requestBody = 0 then
            (Inr (JObject [(''error'',
               JString ''At least one property (title, description, or properties) must be provided to update the database.'')]), sent)
          else
            (let url = NOTION_API_BASE_URL @ ''/databases/'' @ string_of database_id
             in try_fetch net
         \<lparr>url = url, http_method = ''PATCH'',
          headers = notion_headers token, body = Some (JObject requestBody)\<rparr>
         ''Notion API request failed with status ''
         ''Failed to execute Notion update database due to a network or unexpected error.''
         sent))"

definition notionCreateADatabase ::
  "platform \<Rightarrow> string option \<Rightarrow> json \<Rightarrow> network \<Rightarrow> request list \<Rightarrow> execution" where
  \<open>notionCreateADatabase P notionToken args net sent =
     with_token notionToken sent (\<lambda>token.
       let parent = field args ''parent'';
           propertiesJson = field args ''propertiesJson'';
           title = field args ''title''
       in case JSON_parse P (string_of propertiesJson) of
            Inl e \<Rightarrow>
              (Inr (JObject [(''error'', JString ''Invalid JSON string provided for "propertiesJson".''),
                            (''details'', JString (error_text e))]), sent)
          | Inr parsedProperties \<Rightarrow>
              (let requestBody =
                     object_of [(''parent'', parent), (''properties'', Some parsedProperties)]
                     @ assign_if (truthy title) ''title'' title
               in try_fetch net
         \<lparr>url = NOTION_API_BASE_URL @ ''/databases'', http_method = ''POST'',
          headers = notion_headers token, body = Some (JObject requestBody)\<rparr>
         ''Notion API request failed with status ''
         ''Failed to execute Notion create a database due to a network or unexpected error.''
         sent))\<close>

text \<open>
  The adapters of the tool layer, and the \<open>execute\<close> function of each for a token bound by
  its factory. The two adapters with a token argument are not built from a token.
\<close>

datatype adapter =
    NotionRetrieveABlock
  | NotionDeleteABlock
  | NotionUpdateABlock
  | NotionGetBlockChildren
  | NotionPatchBlockChildren
  | NotionRetrieveAPage
  | NotionPostPage
  | NotionPatchPage
  | NotionRetrieveAPageProperty
  | NotionRetrieveADatabase
  | NotionCreateADatabase
  | NotionUpdateADatabase
  | NotionPostDatabaseQuery
  | NotionGetUsers
  | NotionGetUser
  | NotionGetSelf
  | NotionRetrieveAComment
  | NotionCreateAComment
  | NotionPostSearch
  | NotionGetUser_with_token_argument

fun execute ::
  "platform \<Rightarrow> adapter \<Rightarrow> string option \<Rightarrow> json \<Rightarrow> network \<Rightarrow> request list \<Rightarrow> execution" where
  "execute P NotionRetrieveABlock notionToken = notionRetrieveABlock notionToken"
| "execute P NotionDeleteABlock notionToken = notionDeleteABlock notionToken"
| "execute P NotionUpdateABlock notionToken = notionUpdateABlock notionToken"
| "execute P NotionGetBlockChildren notionToken = notionGetBlockChildren P notionToken"
| "execute P NotionPatchBlockChildren notionToken = notionPatchBlockChildren notionToken"
| "execute P NotionRetrieveAPage notionToken = notionRetrieveAPage P notionToken"
| "execute P NotionPostPage notionToken = notionPostPage notionToken"
| "execute P NotionPatchPage notionToken = notionPatchPage notionToken"
| "execute P NotionRetrieveAPageProperty notionToken = notionRetrieveAPageProperty P notionToken"
| "execute P NotionRetrieveADatabase notionToken = notionRetrieveADatabase notionToken"
| "execute P NotionCreateADatabase notionToken = notionCreateADatabase P notionToken"
| "execute P NotionUpdateADatabase notionToken = notionUpdateADatabase notionToken"
| "execute P NotionPostDatabaseQuery notionToken = notionPostDatabaseQuery notionToken"
| "execute P NotionGetUsers notionToken = notionGetUsers P notionToken"
| "execute P NotionGetUser notionToken = notionGetUser notionToken"
| "execute P NotionGetSelf notionToken = notionGetSelf notionToken"
| "execute P NotionRetrieveAComment notionToken = notionRetrieveAComment P notionToken"
| "execute P NotionCreateAComment notionToken = notionCreateAComment notionToken"
| "execute P NotionPostSearch notionToken = notionPostSearch"
| "execute P NotionGetUser_with_token_argument notionToken = notionGetUser_with_token_argument"

definition takes_token_argument :: "adapter \<Rightarrow> bool" where
  "takes_token_argument a = (a = NotionPostSearch \<or> a = NotionGetUser_with_token_argument)"

section \<open>The adapters' parameter schemas\<close>

text \<open>
  Modelled from the spec: the schema combinators the adapters' \<open>parameters\<close> are written
  with come from the zod package, which is not in the sources. The spec says that each
  adapter "declares a schema describing accepted arguments and their constraints
  (string/number bounds, enumerations, nested object shapes)"; \<open>zod\<close> below is the syntax
  of the combinators the sources use and \<open>safeParse\<close> what each accepts, after the
  package's documentation: an object schema drops the keys it does not declare unless it
  is strict, an optional schema accepts \<open>undefined\<close>, a nullable one \<open>null\<close>, a default
  stands in for \<open>undefined\<close>, a union takes its first alternative that accepts, and a
  refinement checks the value its schema produced. \<open>safeParse\<close> gives \<open>None\<close> for a value
  the schema rejects and the parsed value otherwise (\<open>Some None\<close> is \<open>undefined\<close>).
\<close>

datatype zod =
    ZString "nat option"
  | ZNumber bool "int option"
  | ZBoolean
  | ZLiteral string
  | ZEnum "string list"
  | ZAny
  | ZObject bool "(string \<times> zod) list"
  | ZArray zod nat "nat option"
  | ZUnion "zod list"
  | ZRecord zod
  | ZOptional zod
  | ZNullable zod
  | ZDefault zod json
  | ZRefine zod "json \<Rightarrow> bool"

type_synonym parser = "json option \<Rightarrow> json option option"

fun no_longer_than :: "nat \<Rightarrow> nat option \<Rightarrow> bool" where
  "no_longer_than n None = True"
| "no_longer_than n (Some m) = (n \<le> m)"

fun parse_shape ::
  "(string \<times> parser) list \<Rightarrow> (string \<times> json) list \<Rightarrow> (string \<times> json option) list option" where
  "parse_shape [] kvs = Some []"
| "parse_shape ((k, p) # shape) kvs =
     (case p (map_of kvs k) of
        None \<Rightarrow> None
      | Some out \<Rightarrow> map_option (\<lambda>outs. (k, out) # outs) (parse_shape shape kvs))"

definition parse_object :: "bool \<Rightarrow> (string \<times> parser) list \<Rightarrow> parser" where
  "parse_object strict shape v =
     (case v of
        Some (JObject kvs) \<Rightarrow>
          (case parse_shape shape kvs of
             None \<Rightarrow> None
           | Some outs \<Rightarrow>
               if strict \<and> list_ex (\<lambda>(k, x). \<not> List.member (map fst shape) k) kvs then None
               else Some (Some (JObject (object_of outs))))
      | _ \<Rightarrow> None)"

fun parse_items :: "parser \<Rightarrow> json list \<Rightarrow> json list option" where
  "parse_items p [] = Some []"
| "parse_items p (x # xs) =
     (case p (Some x) of
        Some (Some y) \<Rightarrow> map_option (\<lambda>ys. y # ys) (parse_items p xs)
      | _ \<Rightarrow> None)"

definition parse_array :: "parser \<Rightarrow> nat \<Rightarrow> nat option \<Rightarrow> parser" where
  "parse_array item shortest longest v =
     (case v of
        Some (JArray xs) \<Rightarrow>
          if shortest \<le> length xs \<and> no_longer_than (length xs) longest
          then map_option (\<lambda>ys. Some (JArray ys)) (parse_items item xs)
          else None
      | _ \<Rightarrow> None)"

fun parse_values ::
  "parser \<Rightarrow> (string \<times> json) list \<Rightarrow> (string \<times> json option) list option" where
  "parse_values p [] = Some []"
| "parse_values p ((k, x) # kvs) =
     (case p (Some x) of
        None \<Rightarrow> None
      | Some out \<Rightarrow> map_option (\<lambda>outs. (k, out) # outs) (parse_values p kvs))"

definition parse_record :: "parser \<Rightarrow> parser" where
  "parse_record item v =
     (case v of
        Some (JObject kvs) \<Rightarrow>
          map_option (\<lambda>outs. Some (JObject (object_of outs))) (parse_values item kvs)
      | _ \<Rightarrow> None)"

fun parse_union :: "parser list \<Rightarrow> parser" where
  "parse_union [] v = None"
| "parse_union (p # ps) v = (case p v of None \<Rightarrow> parse_union ps v | Some out \<Rightarrow> Some out)"

primrec safeParse :: "zod \<Rightarrow> parser" where
  "safeParse (ZString longest) v =
     (case v of
        Some (JString s) \<Rightarrow> if no_longer_than (length s) longest then Some v else None
      | _ \<Rightarrow> None)"
| "safeParse (ZNumber whole most) v =
     (case v of
        Some (JNumber r) \<Rightarrow>
          if (if whole then r = of_int \<lfloor>r\<rfloor> else True)
             \<and> (case most of None \<Rightarrow> True | Some m \<Rightarrow> r \<le> of_int m)
          then Some v else None
      | _ \<Rightarrow> None)"
| "safeParse ZBoolean v = (case v of Some (JBool b) \<Rightarrow> Some v | _ \<Rightarrow> None)"
| "safeParse (ZLiteral l) v =
     (case v of Some (JString s) \<Rightarrow> if s = l then Some v else None | _ \<Rightarrow> None)"
| "safeParse (ZEnum ls) v =
     (case v of Some (JString s) \<Rightarrow> if List.member ls s then Some v else None | _ \<Rightarrow> None)"
| "safeParse ZAny v = Some v"
| "safeParse (ZObject strict shape) v = parse_object strict (map (map_prod id safeParse) shape) v"
| "safeParse (ZArray item shortest longest) v = parse_array (safeParse item) shortest longest v"
| "safeParse (ZUnion alternatives) v = parse_union (map safeParse alternatives) v"
| "safeParse (ZRecord item) v = parse_record (safeParse item) v"
| "safeParse (ZOptional z) v = (if v = None then Some None else safeParse z v)"
| "safeParse (ZNullable z) v = (if v = Some JNull then Some v else safeParse z v)"
| "safeParse (ZDefault z d) v = (if v = None then safeParse z (Some d) else safeParse z v)"
| "safeParse (ZRefine z check) v =
     (case safeParse z v of
        None \<Rightarrow> None
      | Some None \<Rightarrow> Some None
      | Some (Some out) \<Rightarrow> if check out then Some (Some out) else None)"

text \<open>
  The schemas, as the sources declare them (the descriptions are left out). \<open>z.string()\<close>,
  a plain \<open>z.object\<close> and an optional page size of at most 100 are abbreviated.
  \<open>z.string().url()\<close> is a refinement by the platform's URL check, a parameter.
\<close>

definition z_string :: zod where
  "z_string = ZString None"

definition z_object :: "(string \<times> zod) list \<Rightarrow> zod" where
  "z_object shape = ZObject False shape"

definition z_strict :: "(string \<times> zod) list \<Rightarrow> zod" where
  "z_strict shape = ZObject True shape"

definition z_page_size :: zod where
  "z_page_size = ZOptional (ZNumber True (Some 100))"

definition z_url :: "(string \<Rightarrow> bool) \<Rightarrow> zod" where
  "z_url is_url = ZRefine (ZString None) (\<lambda>v. is_url (string_of (Some v)))"

text \<open>The icon and cover of a page (page creation and page update declare the same shapes).\<close>

definition icon_schema :: zod where
  "icon_schema =
     ZUnion
       [z_object [(''type'', ZLiteral ''emoji''), (''emoji'', z_string)],
        z_object [(''type'', ZLiteral ''external''), (''external'', z_object [(''url'', z_string)])]]"

definition cover_schema :: zod where
  "cover_schema =
     z_object [(''type'', ZLiteral ''external''), (''external'', z_object [(''url'', z_string)])]"

text \<open>The rich text of the block-update adapter and of the adapter that appends children.\<close>

definition RichTextObjectSchema :: "zod \<Rightarrow> zod" where
  "RichTextObjectSchema LinkObjectSchema =
     z_strict
       [(''text'', z_strict
           [(''content'', ZString (Some 2000)),
            (''link'', ZNullable (ZOptional LinkObjectSchema))]),
        (''type'', ZDefault (ZOptional (ZLiteral ''text'')) (JString ''text''))]"

definition rich_text_block :: "zod \<Rightarrow> zod" where
  "rich_text_block LinkObjectSchema =
     z_strict [(''rich_text'', ZArray (RichTextObjectSchema LinkObjectSchema) 1 (Some 100))]"

definition ToDoUpdateSchema :: "zod \<Rightarrow> zod" where
  "ToDoUpdateSchema LinkObjectSchema =
     ZRefine
       (z_strict
          [(''rich_text'', ZOptional (ZArray (RichTextObjectSchema LinkObjectSchema) 1 (Some 100))),
           (''checked'', ZOptional ZBoolean)])
       (\<lambda>data. field data ''rich_text'' \<noteq> None \<or> field data ''checked'' \<noteq> None)"

definition one_update_at_most :: "json \<Rightarrow> bool" where
  "one_update_at_most data =
     (let archived = field data ''archived'';
          updateKeys = map fst (object_rest data [''block_id'', ''archived''])
      in if archived = None \<and> length updateKeys = 0 then False
         else if length updateKeys > 1 then False
         else True)"

definition UpdateBlockParametersSchema :: "(string \<Rightarrow> bool) \<Rightarrow> zod" where
  "UpdateBlockParametersSchema is_url =
     (let LinkObjectSchema = z_strict [(''url'', z_url is_url)];
          block = rich_text_block LinkObjectSchema
      in ZRefine
           (z_strict
              [(''block_id'', z_string),
               (''archived'', ZOptional ZBoolean),
               (''paragraph'', ZOptional block),
               (''heading_1'', ZOptional block),
               (''heading_2'', ZOptional block),
               (''heading_3'', ZOptional block),
               (''bulleted_list_item'', ZOptional block),
               (''numbered_list_item'', ZOptional block),
               (''to_do'', ZOptional (ToDoUpdateSchema LinkObjectSchema)),
               (''toggle'', ZOptional block),
               (''quote'', ZOptional block),
               (''callout'', ZOptional block)])
           one_update_at_most)"

definition content_matches_type :: "json \<Rightarrow> bool" where
  "content_matches_type data =
     (if field data ''type'' = Some (JString ''paragraph'')
      then field data ''paragraph'' \<noteq> None \<and> field data ''bulleted_list_item'' = None
      else if field data ''type'' = Some (JString ''bulleted_list_item'')
      then field data ''bulleted_list_item'' \<noteq> None \<and> field data ''paragraph'' = None
      else False)"

definition ChildBlockObjectSchema :: zod where
  "ChildBlockObjectSchema =
     (let block = rich_text_block (z_strict [(''url'', z_string)])
      in ZRefine
           (z_strict
              [(''type'', ZEnum [''paragraph'', ''bulleted_list_item'']),
               (''paragraph'', ZOptional block),
               (''bulleted_list_item'', ZOptional block)])
           content_matches_type)"

text \<open>The blocks a new page may start with.\<close>

definition page_child_schema :: zod where
  "page_child_schema =
     (let block =
            z_object
              [(''rich_text'', ZArray
                  (z_object
                     [(''type'', ZOptional (ZLiteral ''text'')),
                      (''text'', z_object
                         [(''content'', z_string),
                          (''link'', ZOptional (ZNullable (z_object [(''url'', z_string)])))])])
                  0 None)]
      in z_object
           [(''type'', ZEnum [''paragraph'', ''bulleted_list_item'']),
            (''paragraph'', ZOptional block),
            (''bulleted_list_item'', ZOptional block)])"

text \<open>A title or description: an array of objects with a text of at most 2000 characters.\<close>

definition titled_text :: "nat option \<Rightarrow> zod" where
  "titled_text longest =
     ZArray (z_object [(''text'', z_object [(''content'', ZString (Some 2000))])]) 0 longest"

text \<open>The filter and sort objects of the database query.\<close>

definition TextFilterConditionsSchema :: zod where
  "TextFilterConditionsSchema =
     z_strict
       [(''equals'', ZOptional z_string), (''does_not_equal'', ZOptional z_string),
        (''contains'', ZOptional z_string), (''does_not_contain'', ZOptional z_string),
        (''starts_with'', ZOptional z_string), (''ends_with'', ZOptional z_string),
        (''is_empty'', ZOptional ZBoolean), (''is_not_empty'', ZOptional ZBoolean)]"

definition NumberFilterConditionsSchema :: zod where
  "NumberFilterConditionsSchema =
     z_strict
       [(''equals'', ZOptional (ZNumber False None)),
        (''does_not_equal'', ZOptional (ZNumber False None)),
        (''greater_than'', ZOptional (ZNumber False None)),
        (''less_than'', ZOptional (ZNumber False None)),
        (''greater_than_or_equal_to'', ZOptional (ZNumber False None)),
        (''less_than_or_equal_to'', ZOptional (ZNumber False None)),
        (''is_empty'', ZOptional ZBoolean), (''is_not_empty'', ZOptional ZBoolean)]"

definition CheckboxFilterConditionsSchema :: zod where
  "CheckboxFilterConditionsSchema =
     z_strict [(''equals'', ZOptional ZBoolean), (''does_not_equal'', ZOptional ZBoolean)]"

definition SelectFilterConditionsSchema :: zod where
  "SelectFilterConditionsSchema =
     z_strict
       [(''equals'', ZOptional z_string), (''does_not_equal'', ZOptional z_string),
        (''is_empty'', ZOptional ZBoolean), (''is_not_empty'', ZOptional ZBoolean)]"

definition MultiSelectFilterConditionsSchema :: zod where
  "MultiSelectFilterConditionsSchema =
     z_strict
       [(''contains'', ZOptional z_string), (''does_not_contain'', ZOptional z_string),
        (''is_empty'', ZOptional ZBoolean), (''is_not_empty'', ZOptional ZBoolean)]"

definition DateFilterConditionsSchema :: zod where
  "DateFilterConditionsSchema =
     z_strict
       [(''equals'', ZOptional z_string), (''before'', ZOptional z_string),
        (''after'', ZOptional z_string), (''on_or_before'', ZOptional z_string),
        (''on_or_after'', ZOptional z_string),
        (''is_empty'', ZOptional ZBoolean), (''is_not_empty'', ZOptional ZBoolean),
        (''past_week'', ZOptional (z_object [])), (''past_month'', ZOptional (z_object [])),
        (''past_year'', ZOptional (z_object [])), (''this_week'', ZOptional (z_object [])),
        (''next_week'', ZOptional (z_object [])), (''next_month'', ZOptional (z_object [])),
        (''next_year'', ZOptional (z_object []))]"

definition SinglePropertyFilterSchema :: zod where
  "SinglePropertyFilterSchema =
     z_strict
       [(''property'', z_string),
        (''title'', ZOptional TextFilterConditionsSchema),
        (''rich_text'', ZOptional TextFilterConditionsSchema),
        (''url'', ZOptional TextFilterConditionsSchema),
        (''email'', ZOptional TextFilterConditionsSchema),
        (''phone_number'', ZOptional TextFilterConditionsSchema),
        (''number'', ZOptional NumberFilterConditionsSchema),
        (''checkbox'', ZOptional CheckboxFilterConditionsSchema),
        (''select'', ZOptional SelectFilterConditionsSchema),
        (''multi_select'', ZOptional MultiSelectFilterConditionsSchema),
        (''status'', ZOptional SelectFilterConditionsSchema),
        (''date'', ZOptional DateFilterConditionsSchema),
        (''created_time'', ZOptional DateFilterConditionsSchema),
        (''last_edited_time'', ZOptional DateFilterConditionsSchema)]"

definition FilterObjectSchema :: zod where
  "FilterObjectSchema =
     ZRefine
       (z_object
          [(''or'', ZOptional (ZArray SinglePropertyFilterSchema 0 (Some 100))),
           (''and'', ZOptional (ZArray SinglePropertyFilterSchema 0 (Some 100)))])
       (\<lambda>data. \<not> (truthy (field data ''or'') \<and> truthy (field data ''and'')))"

definition SortSchema :: zod where
  "SortSchema =
     z_strict [(''property'', z_string), (''direction'', ZEnum [''ascending'', ''descending''])]"

text \<open>The \<open>parameters\<close> of each adapter.\<close>

fun parameters :: "(string \<Rightarrow> bool) \<Rightarrow> adapter \<Rightarrow> zod" where
  "parameters is_url NotionRetrieveABlock = z_object [(''block_id'', z_string)]"
| "parameters is_url NotionDeleteABlock = z_object [(''block_id'', z_string)]"
| "parameters is_url NotionUpdateABlock = UpdateBlockParametersSchema is_url"
| "parameters is_url NotionGetBlockChildren =
     z_object
       [(''block_id'', z_string), (''start_cursor'', ZOptional z_string),
        (''page_size'', z_page_size)]"
| "parameters is_url NotionPatchBlockChildren =
     z_object
       [(''block_id'', z_string), (''children'', ZArray ChildBlockObjectSchema 1 None),
        (''after'', ZOptional z_string)]"
| "parameters is_url NotionRetrieveAPage =
     z_object [(''page_id'', z_string), (''filter_properties'', ZOptional z_string)]"
| "parameters is_url NotionPostPage =
     z_object
       [(''parent'', z_object [(''page_id'', z_string)]),
        (''properties'', z_object [(''title'', titled_text (Some 100))]),
        (''children'', ZOptional (ZArray page_child_schema 0 None)),
        (''icon'', ZOptional icon_schema),
        (''cover'', ZOptional cover_schema)]"
| "parameters is_url NotionPatchPage =
     z_object
       [(''page_id'', z_string),
        (''properties'', ZOptional (ZRecord ZAny)),
        (''archived'', ZOptional ZBoolean),
        (''icon'', ZOptional icon_schema),
        (''cover'', ZOptional cover_schema)]"
| "parameters is_url NotionRetrieveAPageProperty =
     z_object
       [(''page_id'', z_string), (''property_id'', z_string), (''page_size'', z_page_size),
        (''start_cursor'', ZOptional z_string)]"
| "parameters is_url NotionRetrieveADatabase = z_object [(''database_id'', z_string)]"
| "parameters is_url NotionCreateADatabase =
     z_object
       [(''parent'', z_object [(''page_id'', z_string), (''type'', ZLiteral ''page_id'')]),
        (''propertiesJson'', z_string),
        (''title'', ZOptional
           (ZArray
              (z_object
                 [(''type'', ZOptional (ZLiteral ''text'')),
                  (''text'', z_object
                     [(''content'', ZString (Some 2000)),
                      (''link'', ZOptional (ZNullable (z_object [(''url'', z_string)])))])])
              0 (Some 100)))]"
| "parameters is_url NotionUpdateADatabase =
     z_object
       [(''database_id'', z_string),
        (''title'', ZOptional (titled_text None)),
        (''description'', ZOptional (titled_text None)),
        (''properties'', ZOptional (ZRecord ZAny))]"
| "parameters is_url NotionPostDatabaseQuery =
     z_object
       [(''database_id'', z_string),
        (''filter_properties'', ZOptional (ZArray z_string 0 None)),
        (''filter'', ZOptional FilterObjectSchema),
        (''sorts'', ZOptional (ZArray SortSchema 0 None)),
        (''start_cursor'', ZOptional z_string),
        (''page_size'', z_page_size),
        (''archived'', ZOptional ZBoolean),
        (''in_trash'', ZOptional ZBoolean)]"
| "parameters is_url NotionGetUsers =
     z_object [(''start_cursor'', ZOptional z_string), (''page_size'', z_page_size)]"
| "parameters is_url NotionGetUser = z_object [(''user_id'', z_string)]"
| "parameters is_url NotionGetSelf = z_object []"
| "parameters is_url NotionRetrieveAComment =
     z_object
       [(''block_id'', z_string), (''page_size'', z_page_size),
        (''start_cursor'', ZOptional z_string)]"
| "parameters is_url NotionCreateAComment =
     z_object
       [(''parent'', z_object [(''page_id'', z_string)]),
        (''rich_text'', ZArray
           (z_object [(''text'', z_object [(''content'', z_string)])]) 1 None)]"
| "parameters is_url NotionPostSearch =
     z_object
       [(''notionToken'', z_string),
        (''query'', z_string),
        (''sort'', ZOptional
           (z_object
              [(''direction'', ZOptional (ZEnum [''ascending'', ''descending''])),
               (''timestamp'', ZOptional (ZLiteral ''last_edited_time''))])),
        (''filter'', ZOptional
           (z_object
              [(''value'', ZEnum [''page'', ''database'']),
               (''property'', ZLiteral ''object'')])),
        (''start_cursor'', ZOptional z_string),
        (''page_size'', z_page_size)]"
| "parameters is_url NotionGetUser_with_token_argument =
     z_object [(''notionToken'', z_string), (''user_id'', z_string)]"

text \<open>
  Modelled from the spec: how the agent runtime (the \<open>tool\<close> function of the ai package,
  which is not in the sources) invokes an adapter. The spec says that the model "invokes
  the tool with arguments conforming to its schema" and that an argument object that
  fails the schema "is rejected before any network call is attempted": the raw arguments
  are parsed with the adapter's \<open>parameters\<close>, and \<open>execute\<close> runs on the parsed value only.
\<close>

datatype invocation = InvalidArguments | Executed "thrown + json"

definition invoke_tool ::
  "(string \<Rightarrow> bool) \<Rightarrow> platform \<Rightarrow> adapter \<Rightarrow> string option \<Rightarrow> json \<Rightarrow> network
     \<Rightarrow> request list \<Rightarrow> invocation \<times> request list" where
  "invoke_tool is_url P a notionToken raw net sent =
     (case safeParse (parameters is_url a) (Some raw) of
        Some (Some args) \<Rightarrow>
          (case execute P a notionToken args net sent of
             (result, sent') \<Rightarrow> (Executed result, sent'))
      | _ \<Rightarrow> (InvalidArguments, sent))"

section \<open>Predicates of the properties\<close>

text \<open>
  The stored credential is well kept when the slot is empty or holds a string that is not
  empty and neither starts nor ends with white space.
\<close>

definition well_kept :: "string option \<Rightarrow> bool" where
  "well_kept t =
     (case t of
        None \<Rightarrow> True
      | Some s \<Rightarrow> s \<noteq> [] \<and> \<not> is_white_space (hd s) \<and> \<not> is_white_space (last s))"

text \<open>
  Two browsers look the same to the component when the component's state and the console
  agree and the storage slots are both truthy or both not: the slot's content is not compared.
\<close>

definition same_but_secret :: "browser \<Rightarrow> browser \<Rightarrow> bool" where
  "same_but_secret w1 w2 =
     (component w1 = component w2 \<and> console w1 = console w2 \<and>
      truthy_nullable (localStorage w1 NOTION_TOKEN_LOCAL_STORAGE_KEY)
        = truthy_nullable (localStorage w2 NOTION_TOKEN_LOCAL_STORAGE_KEY))"

text \<open>
  The shapes of the adapters' two messages: the one that is followed by the status code,
  and the generic one for a transport failure.
\<close>

definition status_message :: "string \<Rightarrow> bool" where
  "status_message m = (prefix ''Notion API request '' m \<and> suffix ''failed with status '' m)"

definition transport_message :: "string \<Rightarrow> bool" where
  "transport_message m =
     (prefix ''Failed to execute Notion '' m \<and> suffix '' due to a network or unexpected error.'' m)"

text \<open>
  An execution fetches when it is the \<open>try\<close> block on one request with messages of the
  two shapes; it is one round trip at most when it fetches or returned without a request.
\<close>

definition fetches :: "network \<Rightarrow> request list \<Rightarrow> execution \<Rightarrow> bool" where
  "fetches net sent r =
     (\<exists>req m1 m2. r = try_fetch net req m1 m2 sent \<and> status_message m1 \<and> transport_message m2)"

definition one_round_trip :: "network \<Rightarrow> request list \<Rightarrow> execution \<Rightarrow> bool" where
  "one_round_trip net sent r = ((\<exists>v. r = (Inr v, sent)) \<or> fetches net sent r)"

text \<open>
  A credential is bound when the factory's token is truthy; the two adapters that take
  the token as an argument need none.
\<close>

definition credential_bound :: "adapter \<Rightarrow> string option \<Rightarrow> bool" where
  "credential_bound a notionToken = (takes_token_argument a \<or> truthy_nullable notionToken)"

text \<open>
  The two returns before the \<open>try\<close> block that the schemas leave open: the database
  update with no title, description or properties to send, and the database creation
  whose \<open>propertiesJson\<close> the platform's \<open>JSON.parse\<close> rejects. In these the adapter makes
  no remote call.
\<close>

definition nothing_to_send :: "platform \<Rightarrow> adapter \<Rightarrow> json \<Rightarrow> bool" where
  "nothing_to_send P a args =
     ((a = NotionUpdateADatabase \<and> \<not> truthy (field args ''title'')
         \<and> \<not> truthy (field args ''description'') \<and> \<not> truthy (field args ''properties''))
      \<or> (a = NotionCreateADatabase
           \<and> isl (JSON_parse P (string_of (field args ''propertiesJson'')))))"

text \<open>
  What the proofs need of an argument object that went through the adapter's schema:
  a page size is absent or a number, \<open>filter_properties\<close> is absent or a string, and a
  block update names the archived flag or an update.
\<close>

definition schema_typed :: "adapter \<Rightarrow> json \<Rightarrow> bool" where
  "schema_typed a args =
     ((if a = NotionGetUsers \<or> a = NotionGetBlockChildren
       then field args ''page_size'' = None \<or> (\<exists>r. field args ''page_size'' = Some (JNumber r))
       else True)
      \<and> (if a = NotionRetrieveAPage
          then field args ''filter_properties'' = None
               \<or> (\<exists>text. field args ''filter_properties'' = Some (JString text))
          else True)
      \<and> (if a = NotionUpdateABlock then one_update_at_most args else True))"

text \<open>
  A platform for the worked examples, which agrees with the real one where the examples
  consult it: its URL parser on a URL with no query, no fragment and nothing to rewrite.
  The examples parse no JSON text and print integers of small magnitude only, so its
  \<open>JSON.parse\<close> and its printing of other numbers are never consulted.
\<close>

abbreviation example_platform :: platform where
  "example_platform \<equiv>
     \<lparr>JSON_parse = (\<lambda>text. Inl (Error ''Unexpected end of JSON input'')),
      URL_new = (\<lambda>urlString. \<lparr>before_query = urlString, query = None, fragment = None,
                                 searchParams = []\<rparr>),
      Number_toString = (\<lambda>r. ''NaN'')\<rparr>"

section \<open>The credential connector: proofs\<close>

lemmas browser_defs =
  setOpen_def setSecretInputValue_def setIsConfigured_def console_log_def setItem_def
  removeItem_def truthy_string_def truthy_nullable_def

lemmas connector_defs =
  handleSaveSecret_def handleSaveOnCloud_def handleClearSecret_def NotionConnector_def
  useEffect_def Let_def

lemma trim_last: "trim s \<noteq> [] \<Longrightarrow> \<not> is_white_space (last (trim s))"
  unfolding trim_def by (simp add: last_rev hd_dropWhile)

lemma trim_hd:
  assumes "trim s \<noteq> []"
  shows "\<not> is_white_space (hd (trim s))"
proof -
  let ?ys = "dropWhile is_white_space s"
  let ?zs = "dropWhile is_white_space (rev ?ys)"
  have zs: "?zs \<noteq> []"
    using assms by (simp add: trim_def)
  have "?ys = rev (takeWhile is_white_space (rev ?ys) @ ?zs)"
    by (simp only: takeWhile_dropWhile_id rev_rev_ident)
  then have ys: "?ys = rev ?zs @ rev (takeWhile is_white_space (rev ?ys))"
    by (simp only: rev_append)
  have "?ys \<noteq> []"
  proof
    assume "?ys = []"
    then have "?zs = []" by (simp only: rev.simps dropWhile.simps)
    with zs show False by blast
  qed
  then have "\<not> is_white_space (hd ?ys)"
    by (rule hd_dropWhile)
  moreover have "hd ?ys = hd (rev ?zs)"
    using zs by (subst ys) simp
  ultimately show ?thesis
    by (simp add: trim_def)
qed

lemma dropWhile_all_iff: "(\<forall>x\<in>set (dropWhile P xs). P x) \<longleftrightarrow> dropWhile P xs = []"
proof
  assume all: "\<forall>x\<in>set (dropWhile P xs). P x"
  show "dropWhile P xs = []"
  proof (rule ccontr)
    assume ne: "dropWhile P xs \<noteq> []"
    then have "\<not> P (hd (dropWhile P xs))" by (rule hd_dropWhile)
    moreover have "hd (dropWhile P xs) \<in> set (dropWhile P xs)" using ne by simp
    ultimately show False using all by blast
  qed
next
  assume "dropWhile P xs = []"
  then show "\<forall>x\<in>set (dropWhile P xs). P x" by (simp only: list.set ball_empty)
qed

lemma trim_empty_iff: "trim s = [] \<longleftrightarrow> list_all is_white_space s"
  unfolding trim_def by (simp add: dropWhile_all_iff list_all_iff)

text \<open>
  C10. If the stored credential is well kept before the save handler runs, it is well kept
  after it. When the input is empty or all white space the handler changes nothing, so the
  storage slot and the configured state stay as they were; for any other input it stores
  the trimmed input and the component is configured.
\<close>

theorem save_keeps_credential_well_kept:
  "well_kept (localStorage w NOTION_TOKEN_LOCAL_STORAGE_KEY) \<Longrightarrow>
   well_kept (localStorage (handleSaveSecret chatId w) NOTION_TOKEN_LOCAL_STORAGE_KEY) \<and>
   (if list_all is_white_space (secretInputValue (component w))
    then handleSaveSecret chatId w = w
    else localStorage (handleSaveSecret chatId w) NOTION_TOKEN_LOCAL_STORAGE_KEY
           = Some (trim (secretInputValue (component w)))
         \<and> isConfigured (component (handleSaveSecret chatId w)))"
  by (simp add: handleSaveSecret_def browser_defs trim_empty_iff [symmetric] well_kept_def
        trim_hd trim_last)

theorem save_keeps_credential_well_kept_witness:
  "well_kept (localStorage
      \<lparr>component = \<lparr>menu_open = True, secretInputValue = ''  secret_abc '', isConfigured = False\<rparr>,
       localStorage = Map.empty, console = []\<rparr> NOTION_TOKEN_LOCAL_STORAGE_KEY)
   \<and> localStorage (handleSaveSecret ''chat-1''
        \<lparr>component = \<lparr>menu_open = True, secretInputValue = ''  secret_abc '', isConfigured = False\<rparr>,
         localStorage = Map.empty, console = []\<rparr>) NOTION_TOKEN_LOCAL_STORAGE_KEY
       = Some ''secret_abc''"
proof -
  let ?w = "\<lparr>component = \<lparr>menu_open = True, secretInputValue = ''  secret_abc '', isConfigured = False\<rparr>,
             localStorage = Map.empty, console = []\<rparr>"
  have kept: "well_kept (localStorage ?w NOTION_TOKEN_LOCAL_STORAGE_KEY)"
    by (simp add: well_kept_def)
  have input: "\<not> list_all is_white_space (secretInputValue (component ?w))"
    by (simp add: is_white_space_def)
  have trimmed: "trim (secretInputValue (component ?w)) = ''secret_abc''"
    by (simp add: trim_def is_white_space_def)
  from save_keeps_credential_well_kept [OF kept, of "''chat-1''"] input
  have "localStorage (handleSaveSecret ''chat-1'' ?w) NOTION_TOKEN_LOCAL_STORAGE_KEY
          = Some (trim (secretInputValue (component ?w)))"
    by (simp only: if_False)
  then have "localStorage (handleSaveSecret ''chat-1'' ?w) NOTION_TOKEN_LOCAL_STORAGE_KEY
          = Some ''secret_abc''"
    by (simp only: trimmed)
  with kept show ?thesis by (rule conjI)
qed

text \<open>
  C4. When the save handler runs on an input whose trimmed value is not empty (a non-empty
  secret is saved) and the component is initialised again on the same storage, the
  configured state is true. After the clear handler the configured state is false and the
  input field is the empty string, and initialising again leaves it not configured.
\<close>

theorem configured_after_save_and_reload:
  "(truthy_string (trim (secretInputValue (component w))) \<longrightarrow>
      isConfigured (component (NotionConnector (handleSaveSecret chatId w))))
   \<and> \<not> isConfigured (component (handleClearSecret chatId w))
   \<and> secretInputValue (component (handleClearSecret chatId w)) = []
   \<and> \<not> isConfigured (component (NotionConnector (handleClearSecret chatId w)))"
  by (simp add: connector_defs browser_defs)

theorem configured_after_save_and_reload_witness:
  "truthy_string (trim (secretInputValue (component
      \<lparr>component = \<lparr>menu_open = True, secretInputValue = ''secret_abc'', isConfigured = False\<rparr>,
       localStorage = Map.empty, console = []\<rparr>)))
   \<and> isConfigured (component (NotionConnector (handleSaveSecret ''chat-1''
        \<lparr>component = \<lparr>menu_open = True, secretInputValue = ''secret_abc'', isConfigured = False\<rparr>,
         localStorage = Map.empty, console = []\<rparr>)))"
proof -
  let ?w = "\<lparr>component = \<lparr>menu_open = True, secretInputValue = ''secret_abc'', isConfigured = False\<rparr>,
             localStorage = Map.empty, console = []\<rparr>"
  have saved: "truthy_string (trim (secretInputValue (component ?w)))"
    by (simp add: truthy_string_def trim_def is_white_space_def)
  from configured_after_save_and_reload [of ?w "''chat-1''"]
  have "truthy_string (trim (secretInputValue (component ?w))) \<longrightarrow>
      isConfigured (component (NotionConnector (handleSaveSecret ''chat-1'' ?w)))"
    by (rule conjunct1)
  from this saved have "isConfigured (component (NotionConnector (handleSaveSecret ''chat-1'' ?w)))"
    by (rule mp)
  with saved show ?thesis by (rule conjI)
qed

lemma act_same_but_secret:
  "same_but_secret w1 w2 \<Longrightarrow> same_but_secret (act chatId a w1) (act chatId a w2)"
  by (cases a) (auto simp: same_but_secret_def connector_defs browser_defs render_def)

lemma observations_same_but_secret:
  "same_but_secret w1 w2 \<Longrightarrow> observations chatId as w1 = observations chatId as w2"
proof (induction as arbitrary: w1 w2)
  case Nil
  then show ?case
    by (simp add: observe_def same_but_secret_def)
next
  case (Cons a as)
  from Cons.prems have "same_but_secret (act chatId a w1) (act chatId a w2)"
    by (rule act_same_but_secret)
  then have "observations chatId as (act chatId a w1) = observations chatId as (act chatId a w2)"
    by (rule Cons.IH)
  with Cons.prems show ?case
    by (simp add: observe_def same_but_secret_def)
qed

text \<open>
  C8, as amended. What the component renders and logs does not depend on the content of
  the secret found in storage, only on whether one is there: two sessions of the same
  actions, started on storages whose slots are both truthy or both not, show the same
  views and the same console after the initialisation and after every action (reloads
  included). Initialising the component leaves the input field empty whatever the
  storage holds. (The save-on-cloud handler logs the first five characters of the input
  field, which is what the user has typed in this session.)
\<close>

theorem stored_secret_not_observable:
  "(truthy_nullable (store1 NOTION_TOKEN_LOCAL_STORAGE_KEY)
      = truthy_nullable (store2 NOTION_TOKEN_LOCAL_STORAGE_KEY) \<longrightarrow>
    session chatId store1 as = session chatId store2 as)
   \<and> input_value (render chatId (component (NotionConnector w))) = []"
proof (rule conjI, rule impI)
  assume "truthy_nullable (store1 NOTION_TOKEN_LOCAL_STORAGE_KEY)
            = truthy_nullable (store2 NOTION_TOKEN_LOCAL_STORAGE_KEY)"
  then have "same_but_secret
      (NotionConnector \<lparr>component = initial_connector, localStorage = store1, console = []\<rparr>)
      (NotionConnector \<lparr>component = initial_connector, localStorage = store2, console = []\<rparr>)"
    by (simp add: same_but_secret_def connector_defs browser_defs)
  then show "session chatId store1 as = session chatId store2 as"
    unfolding session_def by (rule observations_same_but_secret)
next
  show "input_value (render chatId (component (NotionConnector w))) = []"
    by (simp add: render_def connector_defs browser_defs initial_connector_def)
qed

theorem stored_secret_not_observable_witness:
  "truthy_nullable ([NOTION_TOKEN_LOCAL_STORAGE_KEY \<mapsto> ''secret_one''] NOTION_TOKEN_LOCAL_STORAGE_KEY)
     = truthy_nullable ([NOTION_TOKEN_LOCAL_STORAGE_KEY \<mapsto> ''another_secret''] NOTION_TOKEN_LOCAL_STORAGE_KEY)
   \<and> session ''chat-1'' [NOTION_TOKEN_LOCAL_STORAGE_KEY \<mapsto> ''secret_one'']
        [OpenChange True, Type ''new'', ClickSaveOnCloud, Reload, ClickDisconnect]
     = session ''chat-1'' [NOTION_TOKEN_LOCAL_STORAGE_KEY \<mapsto> ''another_secret'']
        [OpenChange True, Type ''new'', ClickSaveOnCloud, Reload, ClickDisconnect]"
proof -
  have both: "truthy_nullable ([NOTION_TOKEN_LOCAL_STORAGE_KEY \<mapsto> ''secret_one''] NOTION_TOKEN_LOCAL_STORAGE_KEY)
     = truthy_nullable ([NOTION_TOKEN_LOCAL_STORAGE_KEY \<mapsto> ''another_secret''] NOTION_TOKEN_LOCAL_STORAGE_KEY)"
    by (simp add: truthy_nullable_def truthy_string_def)
  from stored_secret_not_observable
    [of "[NOTION_TOKEN_LOCAL_STORAGE_KEY \<mapsto> ''secret_one'']"
        "[NOTION_TOKEN_LOCAL_STORAGE_KEY \<mapsto> ''another_secret'']" "''chat-1''"
        "[OpenChange True, Type ''new'', ClickSaveOnCloud, Reload, ClickDisconnect]"]
  have "truthy_nullable ([NOTION_TOKEN_LOCAL_STORAGE_KEY \<mapsto> ''secret_one''] NOTION_TOKEN_LOCAL_STORAGE_KEY)
     = truthy_nullable ([NOTION_TOKEN_LOCAL_STORAGE_KEY \<mapsto> ''another_secret''] NOTION_TOKEN_LOCAL_STORAGE_KEY)
    \<longrightarrow> session ''chat-1'' [NOTION_TOKEN_LOCAL_STORAGE_KEY \<mapsto> ''secret_one'']
        [OpenChange True, Type ''new'', ClickSaveOnCloud, Reload, ClickDisconnect]
     = session ''chat-1'' [NOTION_TOKEN_LOCAL_STORAGE_KEY \<mapsto> ''another_secret'']
        [OpenChange True, Type ''new'', ClickSaveOnCloud, Reload, ClickDisconnect]"
    by (rule conjunct1)
  from this both have "session ''chat-1'' [NOTION_TOKEN_LOCAL_STORAGE_KEY \<mapsto> ''secret_one'']
        [OpenChange True, Type ''new'', ClickSaveOnCloud, Reload, ClickDisconnect]
     = session ''chat-1'' [NOTION_TOKEN_LOCAL_STORAGE_KEY \<mapsto> ''another_secret'']
        [OpenChange True, Type ''new'', ClickSaveOnCloud, Reload, ClickDisconnect]"
    by (rule mp)
  with both show ?thesis by (rule conjI)
qed

text \<open>
  C8 as stated fails: the user opens the menu, types a secret, saves it, opens the menu
  again and clicks Save on Cloud. The storage then holds \<open>secret_abc\<close>, the input field
  still holds it, and the line the handler logs carries its first five characters.
\<close>

theorem saved_secret_prefix_is_logged:
  "localStorage
     (run ''chat-1'' [OpenChange True, Type ''secret_abc'', ClickSave, OpenChange True, ClickSaveOnCloud]
        (NotionConnector \<lparr>component = initial_connector, localStorage = Map.empty, console = []\<rparr>))
     NOTION_TOKEN_LOCAL_STORAGE_KEY = Some ''secret_abc''
   \<and> input_value (render ''chat-1'' (component
        (run ''chat-1'' [OpenChange True, Type ''secret_abc'', ClickSave, OpenChange True, ClickSaveOnCloud]
          (NotionConnector \<lparr>component = initial_connector, localStorage = Map.empty, console = []\<rparr>))))
       = ''secret_abc''
   \<and> console
        (run ''chat-1'' [OpenChange True, Type ''secret_abc'', ClickSave, OpenChange True, ClickSaveOnCloud]
          (NotionConnector \<lparr>component = initial_connector, localStorage = Map.empty, console = []\<rparr>))
       = [''Saved Notion Integration Secret for chat chat-1 to local storage.'',
          ''Simulating save on cloud for Notion Integration Secret for chat chat-1: secre...'']"
  by (simp add: connector_defs browser_defs render_def initial_connector_def trim_def
        is_white_space_def NOTION_TOKEN_LOCAL_STORAGE_KEY_def)

section \<open>The tool adapters: proofs\<close>

lemmas plain_adapter_defs =
  notionRetrieveABlock_def notionDeleteABlock_def notionUpdateABlock_def
  notionPatchBlockChildren_def notionPostPage_def notionPatchPage_def
  notionRetrieveAPageProperty_def notionRetrieveADatabase_def notionCreateADatabase_def
  notionUpdateADatabase_def notionPostDatabaseQuery_def notionGetUser_def notionGetSelf_def
  notionRetrieveAComment_def notionCreateAComment_def notionPostSearch_def
  notionGetUser_with_token_argument_def

lemmas adapter_defs =
  plain_adapter_defs notionGetBlockChildren_def notionRetrieveAPage_def notionGetUsers_def

lemmas message_shapes = status_message_def transport_message_def suffix_to_prefix

subsection \<open>What the schemas guarantee\<close>

lemma safeParse_refine: "safeParse (ZRefine z check) v = Some (Some out) \<Longrightarrow> check out"
  by (auto split: option.splits if_splits)

lemma Some_eq_flip: "Some x = y \<Longrightarrow> y = Some x"
  by simp

lemma users_typed:
  "safeParse (parameters is_url NotionGetUsers) (Some raw) = Some (Some args) \<Longrightarrow>
   field args ''page_size'' = None \<or> (\<exists>r. field args ''page_size'' = Some (JNumber r))"
  by (auto simp: z_object_def z_page_size_def z_string_def parse_object_def field_def
        split: option.splits json.splits if_splits dest!: Some_eq_flip)

lemma children_typed:
  "safeParse (parameters is_url NotionGetBlockChildren) (Some raw) = Some (Some args) \<Longrightarrow>
   field args ''page_size'' = None \<or> (\<exists>r. field args ''page_size'' = Some (JNumber r))"
  by (auto simp: z_object_def z_page_size_def z_string_def parse_object_def field_def
        split: option.splits json.splits if_splits dest!: Some_eq_flip)

lemma page_typed:
  "safeParse (parameters is_url NotionRetrieveAPage) (Some raw) = Some (Some args) \<Longrightarrow>
   field args ''filter_properties'' = None
     \<or> (\<exists>text. field args ''filter_properties'' = Some (JString text))"
  by (auto simp: z_object_def z_string_def parse_object_def field_def
        split: option.splits json.splits if_splits dest!: Some_eq_flip)

lemma block_update_typed:
  "safeParse (parameters is_url NotionUpdateABlock) (Some raw) = Some (Some args) \<Longrightarrow>
   one_update_at_most args"
  unfolding parameters.simps UpdateBlockParametersSchema_def Let_def
  by (rule safeParse_refine)

lemma valid_schema_typed:
  assumes "safeParse (parameters is_url a) (Some raw) = Some (Some args)"
  shows "schema_typed a args"
  unfolding schema_typed_def
  using users_typed [of is_url raw args] children_typed [of is_url raw args]
    page_typed [of is_url raw args] block_update_typed [of is_url raw args] assms
  by (auto simp del: parameters.simps)

subsection \<open>The \<open>try\<close> block\<close>

lemma try_fetch_sent: "snd (try_fetch net req m1 m2 sent) = sent @ [req]"
  by (simp add: try_fetch_def fetch_def split: sum.split)

lemma try_fetch_returns: "\<exists>v. fst (try_fetch net req m1 m2 sent) = Inr v"
  by (simp add: try_fetch_def fetch_def split: sum.split)

lemma try_fetch_throw:
  "net sent req = Inl e \<Longrightarrow> try_fetch net req m1 m2 sent = (Inr (catch m2 e), sent @ [req])"
  by (simp add: try_fetch_def fetch_def)

lemma try_fetch_rejected:
  "net sent req = Inr resp \<Longrightarrow> \<not> ok resp \<Longrightarrow> json_result resp = Inr b \<Longrightarrow>
   try_fetch net req m1 m2 sent =
     (Inr (JObject [(''error'', JString (m1 @ string_of_nat (status resp))), (''details'', b)]),
      sent @ [req])"
  by (simp add: try_fetch_def fetch_def respond_def)

lemma fetchesI:
  "status_message m1 \<Longrightarrow> transport_message m2 \<Longrightarrow>
   fetches net sent (try_fetch net req m1 m2 sent)"
  unfolding fetches_def by blast

lemma returns_one_round_trip: "one_round_trip net sent (Inr v, sent)"
  by (simp add: one_round_trip_def)

lemma fetches_one_round_trip: "fetches net sent r \<Longrightarrow> one_round_trip net sent r"
  by (simp add: one_round_trip_def)

lemma with_token_one_round_trip:
  "(\<And>token. one_round_trip net sent (continue token)) \<Longrightarrow>
   one_round_trip net sent (with_token notionToken sent continue)"
  by (simp add: with_token_def returns_one_round_trip split: option.split)

lemma with_token_or_throw:
  "(\<And>token. one_round_trip net sent (continue token)
              \<or> (\<exists>e. continue token = (Inl e, sent))) \<Longrightarrow>
   one_round_trip net sent (with_token notionToken sent continue)
     \<or> (\<exists>e. with_token notionToken sent continue = (Inl e, sent))"
  by (simp add: with_token_def returns_one_round_trip split: option.split)

lemma with_token_bound:
  "truthy_nullable notionToken \<Longrightarrow> (\<And>token. fetches net sent (continue token)) \<Longrightarrow>
   fetches net sent (with_token notionToken sent continue)"
  by (auto simp: with_token_def truthy_nullable_def split: option.split)

lemma object_of_single_Nil [simp]: "(object_of [(k, v)] = []) = (v = None)"
  by (cases v) simp_all

subsection \<open>The three adapters that can throw before the \<open>try\<close> block\<close>

lemma throw_or_fetch:
  "(\<And>x. fetches net sent (k x)) \<Longrightarrow>
   one_round_trip net sent (case s of Inl error \<Rightarrow> (Inl error, sent) | Inr x \<Rightarrow> k x)
     \<or> (\<exists>e. (case s of Inl error \<Rightarrow> (Inl error, sent) | Inr x \<Rightarrow> k x) = (Inl e, sent))"
  by (cases s) (simp_all add: one_round_trip_def)

lemma page_size_fetch:
  "page_size = None \<or> (\<exists>r. page_size = Some (JNumber r)) \<Longrightarrow>
   (\<And>x. fetches net sent (k x)) \<Longrightarrow>
   fetches net sent
     (case (if page_size \<noteq> None
            then map_sum id (\<lambda>text. URLSearchParams_append ''page_size'' text queryParams)
                   (toString P page_size)
            else Inr queryParams) of
        Inl error \<Rightarrow> (Inl error, sent)
      | Inr x \<Rightarrow> k x)"
  by (auto simp: toString_def)

lemma filter_properties_fetch:
  "filter_properties = None \<or> (\<exists>text. filter_properties = Some (JString text)) \<Longrightarrow>
   (\<And>x. fetches net sent (k x)) \<Longrightarrow>
   fetches net sent
     (case (if truthy filter_properties then
              (case filter_properties of
                 Some (JString text) \<Rightarrow>
                   (let propertiesToFilter = split (CHR '','') text
                    in Inr (foldl (\<lambda>u propId. searchParams_append ''filter_properties'' (trim propId) u)
                              u0 propertiesToFilter))
               | _ \<Rightarrow> Inl (Error ''filter_properties.split is not a function''))
            else Inr u0) of
        Inl error \<Rightarrow> (Inl error, sent)
      | Inr x \<Rightarrow> k x)"
  by (auto simp: Let_def)

lemma users_fetch:
  "fetches net sent
     (try_fetch net \<lparr>url = u, http_method = ''GET'', headers = h, body = None\<rparr>
        ''Notion API request (get-users) failed with status ''
        ''Failed to execute Notion get-users due to a network or unexpected error.'' sent)"
  by (rule fetchesI) (simp_all add: message_shapes)

lemma children_fetch:
  "fetches net sent
     (try_fetch net \<lparr>url = u, http_method = ''GET'', headers = h, body = None\<rparr>
        ''Notion API request (get-block-children) failed with status ''
        ''Failed to execute Notion get-block-children due to a network or unexpected error.'' sent)"
  by (rule fetchesI) (simp_all add: message_shapes)

lemma page_fetch:
  "fetches net sent
     (try_fetch net \<lparr>url = u, http_method = ''GET'', headers = h, body = None\<rparr>
        ''Notion API request (retrieve-a-page) failed with status ''
        ''Failed to execute Notion retrieve-a-page due to a network or unexpected error.'' sent)"
  by (rule fetchesI) (simp_all add: message_shapes)

lemma throwing_adapters_shape:
  "one_round_trip net sent (notionGetUsers P tok args net sent)
     \<or> (\<exists>e. notionGetUsers P tok args net sent = (Inl e, sent))"
  "one_round_trip net sent (notionGetBlockChildren P tok args net sent)
     \<or> (\<exists>e. notionGetBlockChildren P tok args net sent = (Inl e, sent))"
  "one_round_trip net sent (notionRetrieveAPage P tok args net sent)
     \<or> (\<exists>e. notionRetrieveAPage P tok args net sent = (Inl e, sent))"
  unfolding notionGetUsers_def notionGetBlockChildren_def notionRetrieveAPage_def Let_def
  by (rule with_token_or_throw, rule throw_or_fetch,
      rule users_fetch children_fetch page_fetch)+

lemma users_round_trip:
  assumes "schema_typed NotionGetUsers args"
  shows "one_round_trip net sent (execute P NotionGetUsers tok args net sent)"
proof -
  from assms have typed:
    "field args ''page_size'' = None \<or> (\<exists>r. field args ''page_size'' = Some (JNumber r))"
    by (simp add: schema_typed_def)
  show ?thesis
    unfolding execute.simps notionGetUsers_def Let_def
    by (rule with_token_one_round_trip, rule fetches_one_round_trip,
        rule page_size_fetch [OF typed], rule users_fetch)
qed

lemma users_sends:
  assumes "schema_typed NotionGetUsers args" and "truthy_nullable tok"
  shows "fetches net sent (execute P NotionGetUsers tok args net sent)"
proof -
  from assms have typed:
    "field args ''page_size'' = None \<or> (\<exists>r. field args ''page_size'' = Some (JNumber r))"
    by (simp add: schema_typed_def)
  show ?thesis
    unfolding execute.simps notionGetUsers_def Let_def
    by (rule with_token_bound [OF assms(2)], rule page_size_fetch [OF typed], rule users_fetch)
qed

lemma children_round_trip:
  assumes "schema_typed NotionGetBlockChildren args"
  shows "one_round_trip net sent (execute P NotionGetBlockChildren tok args net sent)"
proof -
  from assms have typed:
    "field args ''page_size'' = None \<or> (\<exists>r. field args ''page_size'' = Some (JNumber r))"
    by (simp add: schema_typed_def)
  show ?thesis
    unfolding execute.simps notionGetBlockChildren_def Let_def
    by (rule with_token_one_round_trip, rule fetches_one_round_trip,
        rule page_size_fetch [OF typed], rule children_fetch)
qed

lemma children_sends:
  assumes "schema_typed NotionGetBlockChildren args" and "truthy_nullable tok"
  shows "fetches net sent (execute P NotionGetBlockChildren tok args net sent)"
proof -
  from assms have typed:
    "field args ''page_size'' = None \<or> (\<exists>r. field args ''page_size'' = Some (JNumber r))"
    by (simp add: schema_typed_def)
  show ?thesis
    unfolding execute.simps notionGetBlockChildren_def Let_def
    by (rule with_token_bound [OF assms(2)], rule page_size_fetch [OF typed],
        rule children_fetch)
qed

lemma page_round_trip:
  assumes "schema_typed NotionRetrieveAPage args"
  shows "one_round_trip net sent (execute P NotionRetrieveAPage tok args net sent)"
proof -
  from assms have typed:
    "field args ''filter_properties'' = None
       \<or> (\<exists>text. field args ''filter_properties'' = Some (JString text))"
    by (simp add: schema_typed_def)
  show ?thesis
    unfolding execute.simps notionRetrieveAPage_def Let_def
    by (rule with_token_one_round_trip, rule fetches_one_round_trip,
        rule filter_properties_fetch [OF typed, unfolded Let_def], rule page_fetch)
qed

lemma page_sends:
  assumes "schema_typed NotionRetrieveAPage args" and "truthy_nullable tok"
  shows "fetches net sent (execute P NotionRetrieveAPage tok args net sent)"
proof -
  from assms have typed:
    "field args ''filter_properties'' = None
       \<or> (\<exists>text. field args ''filter_properties'' = Some (JString text))"
    by (simp add: schema_typed_def)
  show ?thesis
    unfolding execute.simps notionRetrieveAPage_def Let_def
    by (rule with_token_bound [OF assms(2)],
        rule filter_properties_fetch [OF typed, unfolded Let_def], rule page_fetch)
qed

subsection \<open>Every adapter is one round trip at most\<close>

lemma plain_one_round_trip:
  assumes "a \<noteq> NotionGetUsers" and "a \<noteq> NotionGetBlockChildren" and "a \<noteq> NotionRetrieveAPage"
  shows "one_round_trip net sent (execute P a tok args net sent)"
  using assms
  apply (cases a)
  apply (simp_all only: execute.simps plain_adapter_defs Let_def)
  apply ((rule with_token_one_round_trip;
          auto intro!: fetches_one_round_trip fetchesI returns_one_round_trip
            simp: message_shapes split: sum.split) | simp)+
  apply (auto intro!: fetches_one_round_trip fetchesI simp: message_shapes)
  done

lemma plain_sends:
  assumes "a \<noteq> NotionGetUsers" and "a \<noteq> NotionGetBlockChildren" and "a \<noteq> NotionRetrieveAPage"
      and "credential_bound a tok" and "schema_typed a args" and "\<not> nothing_to_send P a args"
  shows "fetches net sent (execute P a tok args net sent)"
  using assms
  apply (cases a)
  apply (simp_all only: execute.simps plain_adapter_defs Let_def)
  apply ((rule with_token_bound;
          auto intro!: fetchesI
            simp: message_shapes schema_typed_def nothing_to_send_def one_update_at_most_def
                  assign_if_def Let_def credential_bound_def takes_token_argument_def
            split: sum.split if_splits) | simp)+
  apply (auto intro!: fetchesI simp: message_shapes)
  done

lemma execute_one_round_trip_or_throw:
  "one_round_trip net sent (execute P a tok args net sent)
     \<or> (\<exists>e. execute P a tok args net sent = (Inl e, sent))"
proof (cases "a = NotionGetUsers \<or> a = NotionGetBlockChildren \<or> a = NotionRetrieveAPage")
  case True
  then show ?thesis
    using throwing_adapters_shape [of net sent P tok args] by auto
next
  case False
  then have "one_round_trip net sent (execute P a tok args net sent)"
    by (intro plain_one_round_trip) simp_all
  then show ?thesis ..
qed

lemma execute_typed:
  assumes "schema_typed a args"
  shows "one_round_trip net sent (execute P a tok args net sent)"
proof (cases "a = NotionGetUsers \<or> a = NotionGetBlockChildren \<or> a = NotionRetrieveAPage")
  case True
  with assms show ?thesis
    by - (elim disjE; hypsubst; rule users_round_trip children_round_trip page_round_trip;
          assumption)
next
  case False
  then show ?thesis
    by (intro plain_one_round_trip) simp_all
qed

lemma execute_sends:
  assumes "credential_bound a tok" and "schema_typed a args" and "\<not> nothing_to_send P a args"
  shows "fetches net sent (execute P a tok args net sent)"
proof (cases "a = NotionGetUsers \<or> a = NotionGetBlockChildren \<or> a = NotionRetrieveAPage")
  case True
  with assms(1) have "truthy_nullable tok"
    by (auto simp: credential_bound_def takes_token_argument_def)
  with True assms(2) show ?thesis
    by - (elim disjE; hypsubst; rule users_sends children_sends page_sends; assumption)
next
  case False
  with assms show ?thesis
    by (intro plain_sends) simp_all
qed

lemma execute_cases:
  obtains (returned) v where "execute P a tok args net sent = (Inr v, sent)"
  | (fetched) req m1 m2 where "execute P a tok args net sent = try_fetch net req m1 m2 sent"
      and "status_message m1" and "transport_message m2"
  | (threw) e where "execute P a tok args net sent = (Inl e, sent)"
  using execute_one_round_trip_or_throw [of net sent P a tok args]
  unfolding one_round_trip_def fetches_def by blast

lemma with_token_unbound:
  "\<not> truthy_nullable tok \<Longrightarrow> with_token tok sent continue = (Inr token_not_configured, sent)"
  by (auto simp: with_token_def truthy_nullable_def split: option.split)

text \<open>
  C7. Whatever the adapter, the bound token, the arguments, the network's answers and the
  requests sent before: after one invocation the requests sent are those sent before and
  at most one new request.
\<close>

theorem at_most_one_request:
  "\<exists>new. snd (execute P a notionToken args net sent) = sent @ new \<and> length new \<le> 1"
proof (cases rule: execute_cases [of P a notionToken args net sent])
  case (returned v)
  then have "snd (execute P a notionToken args net sent) = sent @ [] \<and> length [] \<le> (1::nat)"
    by simp
  then show ?thesis by (rule exI)
next
  case (fetched req m1 m2)
  then have "snd (execute P a notionToken args net sent) = sent @ [req] \<and> length [req] \<le> (1::nat)"
    by (simp add: try_fetch_sent)
  then show ?thesis by (rule exI)
next
  case (threw e)
  then have "snd (execute P a notionToken args net sent) = sent @ [] \<and> length [] \<le> (1::nat)"
    by simp
  then show ?thesis by (rule exI)
qed

theorem at_most_one_request_witness:
  "\<exists>new. snd (execute example_platform NotionUpdateABlock (Some ''secret_1'')
                 (JObject [(''block_id'', JString ''b1''), (''archived'', JBool True)])
                 (\<lambda>sent req. Inr \<lparr>status = 500, json_result = Inl (Error ''Unexpected token <'')\<rparr>) [])
          = [] @ new \<and> length new \<le> 1"
  by (rule at_most_one_request)

text \<open>
  C3. An invocation on arguments that the adapter's schema accepts does not throw: it
  returns a value, whatever the network does (a throwing \<open>fetch\<close>, a body that is not
  JSON). When moreover the credential is bound and the adapter has a request to send (it
  does not stop at an update without fields or at a properties text that is not JSON),
  and \<open>fetch\<close> throws, the invocation has sent one request and returns the object whose
  \<open>error\<close> is the adapter's generic transport-failure message and whose \<open>details\<close> is the
  message of the \<open>Error\<close> thrown, or the string form of a thrown value that is not an
  \<open>Error\<close>.
\<close>

theorem network_throw_is_returned:
  assumes "safeParse (parameters is_url a) (Some raw) = Some (Some args)"
  shows "(\<exists>v. fst (execute P a notionToken args net sent) = Inr v) \<and>
         (credential_bound a notionToken \<and> \<not> nothing_to_send P a args
            \<and> ((\<forall>req. net sent req = Inl (Error message))
                 \<or> (\<forall>req. net sent req = Inl (NotAnError message))) \<longrightarrow>
          (\<exists>req m. execute P a notionToken args net sent
                      = (Inr (JObject [(''error'', JString m), (''details'', JString message)]),
                         sent @ [req])
                    \<and> transport_message m))"
proof (rule conjI)
  from assms have typed: "schema_typed a args"
    by (rule valid_schema_typed)
  then have "one_round_trip net sent (execute P a notionToken args net sent)"
    by (rule execute_typed)
  then show "\<exists>v. fst (execute P a notionToken args net sent) = Inr v"
    unfolding one_round_trip_def fetches_def
    by (auto simp: try_fetch_returns)
  show "credential_bound a notionToken \<and> \<not> nothing_to_send P a args
            \<and> ((\<forall>req. net sent req = Inl (Error message))
                 \<or> (\<forall>req. net sent req = Inl (NotAnError message))) \<longrightarrow>
          (\<exists>req m. execute P a notionToken args net sent
                      = (Inr (JObject [(''error'', JString m), (''details'', JString message)]),
                         sent @ [req])
                    \<and> transport_message m)"
  proof (intro impI, elim conjE)
    assume bound: "credential_bound a notionToken"
      and something: "\<not> nothing_to_send P a args"
      and throws: "(\<forall>req. net sent req = Inl (Error message))
                     \<or> (\<forall>req. net sent req = Inl (NotAnError message))"
    from bound typed something
    have "fetches net sent (execute P a notionToken args net sent)"
      by (rule execute_sends)
    then obtain req m1 m2
      where run: "execute P a notionToken args net sent = try_fetch net req m1 m2 sent"
        and generic: "transport_message m2"
      unfolding fetches_def by blast
    from throws obtain e where "net sent req = Inl e" and "error_text e = message"
      by auto
    then have "execute P a notionToken args net sent
                 = (Inr (JObject [(''error'', JString m2), (''details'', JString message)]),
                    sent @ [req])"
      by (simp add: run try_fetch_throw catch_def)
    with generic show "\<exists>req m. execute P a notionToken args net sent
                      = (Inr (JObject [(''error'', JString m), (''details'', JString message)]),
                         sent @ [req])
                    \<and> transport_message m"
      by blast
  qed
qed

theorem network_throw_is_returned_witness:
  "safeParse (parameters (\<lambda>s. True) NotionGetBlockChildren)
       (Some (JObject [(''block_id'', JString ''b1''), (''page_size'', JNumber 5)]))
     = Some (Some (JObject [(''block_id'', JString ''b1''), (''page_size'', JNumber 5)]))
   \<and> credential_bound NotionGetBlockChildren (Some ''secret_1'')
   \<and> \<not> nothing_to_send example_platform NotionGetBlockChildren
          (JObject [(''block_id'', JString ''b1''), (''page_size'', JNumber 5)])
   \<and> (\<exists>req m. execute example_platform NotionGetBlockChildren (Some ''secret_1'')
                 (JObject [(''block_id'', JString ''b1''), (''page_size'', JNumber 5)])
                 (\<lambda>sent req. Inl (Error ''getaddrinfo ENOTFOUND api.notion.com'')) []
               = (Inr (JObject [(''error'', JString m),
                                (''details'', JString ''getaddrinfo ENOTFOUND api.notion.com'')]),
                  [] @ [req])
             \<and> transport_message m)
   \<and> execute example_platform NotionGetBlockChildren (Some ''secret_1'')
        (JObject [(''block_id'', JString ''b1''), (''page_size'', JNumber 5)])
        (\<lambda>sent req. Inl (Error ''getaddrinfo ENOTFOUND api.notion.com'')) []
      = (Inr (JObject
           [(''error'', JString ''Failed to execute Notion get-block-children due to a network or unexpected error.''),
            (''details'', JString ''getaddrinfo ENOTFOUND api.notion.com'')]),
         [\<lparr>url = ''https://api.notion.com/v1/blocks/b1/children?page_size=5'', http_method = ''GET'',
           headers = notion_headers ''secret_1'', body = None\<rparr>])"
proof -
  let ?args = "JObject [(''block_id'', JString ''b1''), (''page_size'', JNumber 5)]"
  let ?net = "\<lambda>(sent :: request list) (req :: request).
                (Inl (Error ''getaddrinfo ENOTFOUND api.notion.com'') :: thrown + response)"
  let ?run = "execute example_platform NotionGetBlockChildren (Some ''secret_1'') ?args ?net []"
  have valid: "safeParse (parameters (\<lambda>s. True) NotionGetBlockChildren) (Some ?args)
                 = Some (Some ?args)"
    by (simp add: z_object_def z_string_def z_page_size_def parse_object_def)
  have bound: "credential_bound NotionGetBlockChildren (Some ''secret_1'')"
    by (simp add: credential_bound_def truthy_nullable_def truthy_string_def)
  have something: "\<not> nothing_to_send example_platform NotionGetBlockChildren ?args"
    by (simp add: nothing_to_send_def)
  have throws: "(\<forall>req. ?net [] req = Inl (Error ''getaddrinfo ENOTFOUND api.notion.com''))
                  \<or> (\<forall>req. ?net [] req = Inl (NotAnError ''getaddrinfo ENOTFOUND api.notion.com''))"
    by simp
  from network_throw_is_returned
    [where is_url = "\<lambda>s. True" and a = NotionGetBlockChildren and raw = ?args and args = ?args
       and P = example_platform and notionToken = "Some ''secret_1''" and net = ?net
       and sent = "[]" and message = "''getaddrinfo ENOTFOUND api.notion.com''", OF valid]
  have "credential_bound NotionGetBlockChildren (Some ''secret_1'')
          \<and> \<not> nothing_to_send example_platform NotionGetBlockChildren ?args
          \<and> ((\<forall>req. ?net [] req = Inl (Error ''getaddrinfo ENOTFOUND api.notion.com''))
               \<or> (\<forall>req. ?net [] req = Inl (NotAnError ''getaddrinfo ENOTFOUND api.notion.com''))) \<longrightarrow>
        (\<exists>req m. ?run = (Inr (JObject [(''error'', JString m),
                                (''details'', JString ''getaddrinfo ENOTFOUND api.notion.com'')]),
                          [] @ [req])
                  \<and> transport_message m)"
    by (rule conjunct2)
  from this conjI [OF bound conjI [OF something throws]]
  have returned: "\<exists>req m. ?run = (Inr (JObject [(''error'', JString m),
                                (''details'', JString ''getaddrinfo ENOTFOUND api.notion.com'')]),
                          [] @ [req])
                  \<and> transport_message m"
    by (rule mp)
  have computed: "?run = (Inr (JObject
           [(''error'', JString ''Failed to execute Notion get-block-children due to a network or unexpected error.''),
            (''details'', JString ''getaddrinfo ENOTFOUND api.notion.com'')]),
         [\<lparr>url = ''https://api.notion.com/v1/blocks/b1/children?page_size=5'', http_method = ''GET'',
           headers = notion_headers ''secret_1'', body = None\<rparr>])"
    by (simp add: notionGetBlockChildren_def with_token_def truthy_string_def try_fetch_def
          fetch_def catch_def NOTION_API_BASE_URL_def field_def string_of_def toString_def
          Number_prototype_toString_def string_of_int_def string_of_nat.simps
          URLSearchParams_append_def URLSearchParams_toString_def urlencode_def
          urlencode_char_def Let_def)
  from valid bound something returned computed show ?thesis
    by (intro conjI)
qed

text \<open>
  C2. When the credential is bound, the arguments are accepted by the adapter's schema
  and the adapter has a request to send (it does not stop at an update without fields or
  at a properties text that is not JSON), and the network answers with a status outside
  200..299 and a body that decodes as JSON: the invocation has sent one request and
  returns the object whose \<open>error\<close> is the adapter's status message followed by the
  status code in decimal, and whose \<open>details\<close> is the decoded body.
\<close>

theorem remote_rejection_is_passed_through:
  assumes "credential_bound a notionToken"
      and "safeParse (parameters is_url a) (Some raw) = Some (Some args)"
      and "\<not> nothing_to_send P a args"
      and "\<forall>req. net sent req = Inr resp"
      and "\<not> ok resp"
      and "json_result resp = Inr errorData"
  shows "\<exists>req m. execute P a notionToken args net sent
                   = (Inr (JObject [(''error'', JString (m @ string_of_nat (status resp))),
                                    (''details'', errorData)]),
                      sent @ [req])
                 \<and> status_message m"
proof -
  from assms(2) have "schema_typed a args"
    by (rule valid_schema_typed)
  with assms(1) have "fetches net sent (execute P a notionToken args net sent)"
    using assms(3) by (rule execute_sends)
  then obtain req m1 m2
    where run: "execute P a notionToken args net sent = try_fetch net req m1 m2 sent"
      and named: "status_message m1"
    unfolding fetches_def by blast
  from assms(4) have "net sent req = Inr resp" ..
  then have "execute P a notionToken args net sent
               = (Inr (JObject [(''error'', JString (m1 @ string_of_nat (status resp))),
                                (''details'', errorData)]),
                  sent @ [req])"
    using assms(5,6) unfolding run by (rule try_fetch_rejected)
  with named show ?thesis by blast
qed

theorem remote_rejection_is_passed_through_witness:
  "credential_bound NotionGetUsers (Some ''secret_1'')
   \<and> safeParse (parameters (\<lambda>s. True) NotionGetUsers) (Some (JObject [(''page_size'', JNumber 10)]))
       = Some (Some (JObject [(''page_size'', JNumber 10)]))
   \<and> \<not> nothing_to_send example_platform NotionGetUsers (JObject [(''page_size'', JNumber 10)])
   \<and> \<not> ok \<lparr>status = 401, json_result = Inr (JObject [(''code'', JString ''unauthorized'')])\<rparr>
   \<and> (\<exists>req m. execute example_platform NotionGetUsers (Some ''secret_1'')
                 (JObject [(''page_size'', JNumber 10)])
                 (\<lambda>sent req. Inr \<lparr>status = 401,
                    json_result = Inr (JObject [(''code'', JString ''unauthorized'')])\<rparr>) []
               = (Inr (JObject [(''error'', JString (m @ string_of_nat (status
                         \<lparr>status = 401, json_result = Inr (JObject [(''code'', JString ''unauthorized'')])\<rparr>))),
                                (''details'', JObject [(''code'', JString ''unauthorized'')])]),
                  [] @ [req])
             \<and> status_message m)
   \<and> execute example_platform NotionGetUsers (Some ''secret_1'')
        (JObject [(''page_size'', JNumber 10)])
        (\<lambda>sent req. Inr \<lparr>status = 401,
           json_result = Inr (JObject [(''code'', JString ''unauthorized'')])\<rparr>) []
      = (Inr (JObject [(''error'', JString ''Notion API request (get-users) failed with status 401''),
                       (''details'', JObject [(''code'', JString ''unauthorized'')])]),
         [\<lparr>url = ''https://api.notion.com/v1/users?page_size=10'', http_method = ''GET'',
           headers = notion_headers ''secret_1'', body = None\<rparr>])"
proof -
  let ?args = "JObject [(''page_size'', JNumber 10)]"
  let ?resp = "\<lparr>status = 401, json_result = Inr (JObject [(''code'', JString ''unauthorized'')])\<rparr>"
  let ?net = "\<lambda>(sent :: request list) (req :: request). (Inr ?resp :: thrown + response)"
  let ?run = "execute example_platform NotionGetUsers (Some ''secret_1'') ?args ?net []"
  have bound: "credential_bound NotionGetUsers (Some ''secret_1'')"
    by (simp add: credential_bound_def truthy_nullable_def truthy_string_def)
  have valid: "safeParse (parameters (\<lambda>s. True) NotionGetUsers) (Some ?args) = Some (Some ?args)"
    by (simp add: z_object_def z_string_def z_page_size_def parse_object_def)
  have something: "\<not> nothing_to_send example_platform NotionGetUsers ?args"
    by (simp add: nothing_to_send_def)
  have answered: "\<forall>req. ?net [] req = Inr ?resp"
    by simp
  have rejected: "\<not> ok ?resp"
    by (simp add: ok_def)
  have decoded: "json_result ?resp = Inr (JObject [(''code'', JString ''unauthorized'')])"
    by simp
  from bound valid something answered rejected decoded
  have returned: "\<exists>req m. ?run
       = (Inr (JObject [(''error'', JString (m @ string_of_nat (status ?resp))),
                        (''details'', JObject [(''code'', JString ''unauthorized'')])]),
          [] @ [req])
       \<and> status_message m"
    by (rule remote_rejection_is_passed_through
          [where is_url = "\<lambda>s. True" and a = NotionGetUsers and raw = ?args and args = ?args
             and P = example_platform and notionToken = "Some ''secret_1''" and net = ?net
             and sent = "[]" and resp = ?resp
             and errorData = "JObject [(''code'', JString ''unauthorized'')]"])
  have computed: "?run
      = (Inr (JObject [(''error'', JString ''Notion API request (get-users) failed with status 401''),
                       (''details'', JObject [(''code'', JString ''unauthorized'')])]),
         [\<lparr>url = ''https://api.notion.com/v1/users?page_size=10'', http_method = ''GET'',
           headers = notion_headers ''secret_1'', body = None\<rparr>])"
    by (simp add: notionGetUsers_def with_token_def truthy_string_def try_fetch_def
          fetch_def respond_def ok_def NOTION_API_BASE_URL_def field_def string_of_def
          toString_def Number_prototype_toString_def string_of_int_def string_of_nat.simps
          URLSearchParams_append_def URLSearchParams_toString_def urlencode_def
          urlencode_char_def Let_def)
  from bound valid something rejected returned computed show ?thesis
    by (intro conjI)
qed

text \<open>
  C1, as amended. For each of the eighteen adapters that a factory binds to a token, an
  invocation with no token (\<open>null\<close>) or the empty token returns the missing-credential
  error object and sends no request. The two adapters that take the token as an argument
  of their schema (the search adapter and the user-retrieval adapter of that kind) have
  no such guard: every invocation sends one request.
\<close>

theorem missing_credential_sends_nothing:
  "(\<not> takes_token_argument a \<and> \<not> truthy_nullable notionToken \<longrightarrow>
      execute P a notionToken args net sent = (Inr token_not_configured, sent))
   \<and> (takes_token_argument a \<longrightarrow>
        (\<exists>req. snd (execute P a notionToken args net sent) = sent @ [req]))"
proof (intro conjI impI)
  assume "\<not> takes_token_argument a \<and> \<not> truthy_nullable notionToken"
  then show "execute P a notionToken args net sent = (Inr token_not_configured, sent)"
    by (cases a; simp add: takes_token_argument_def;
        simp only: adapter_defs Let_def with_token_unbound)
next
  assume "takes_token_argument a"
  then show "\<exists>req. snd (execute P a notionToken args net sent) = sent @ [req]"
    by (cases a; simp add: takes_token_argument_def)
       (simp_all add: notionPostSearch_def notionGetUser_with_token_argument_def
          try_fetch_sent Let_def)
qed

theorem missing_credential_sends_nothing_witness:
  "\<not> takes_token_argument NotionRetrieveABlock \<and> \<not> truthy_nullable None
   \<and> execute example_platform NotionRetrieveABlock None
        (JObject [(''block_id'', JString ''b1'')])
        (\<lambda>sent req. Inl (Error ''offline'')) []
       = (Inr token_not_configured, [])"
proof -
  have bound: "\<not> takes_token_argument NotionRetrieveABlock \<and> \<not> truthy_nullable None"
    by (simp add: takes_token_argument_def truthy_nullable_def)
  from missing_credential_sends_nothing
    [where a = NotionRetrieveABlock and notionToken = None and P = example_platform
       and args = "JObject [(''block_id'', JString ''b1'')]"
       and net = "\<lambda>sent req. Inl (Error ''offline'')" and sent = "[]"]
  have "\<not> takes_token_argument NotionRetrieveABlock \<and> \<not> truthy_nullable None \<longrightarrow>
      execute example_platform NotionRetrieveABlock None
        (JObject [(''block_id'', JString ''b1'')])
        (\<lambda>sent req. Inl (Error ''offline'')) []
       = (Inr token_not_configured, [])"
    by (rule conjunct1)
  from this bound have "execute example_platform NotionRetrieveABlock None
        (JObject [(''block_id'', JString ''b1'')])
        (\<lambda>sent req. Inl (Error ''offline'')) []
       = (Inr token_not_configured, [])"
    by (rule mp)
  with bound show ?thesis by blast
qed

text \<open>
  C1 as stated fails at the search adapter: no factory binds a token to it, its schema
  accepts the empty token, and the invocation sends a request to the search endpoint
  instead of returning the missing-credential error.
\<close>

theorem search_sends_request_without_credential:
  "execute example_platform NotionPostSearch None
     (JObject [(''notionToken'', JString []), (''query'', JString ''notes'')])
     (\<lambda>sent req. Inl (Error ''offline'')) []
   = (Inr (JObject [(''error'', JString ''Failed to execute Notion search due to a network or unexpected error.''),
                    (''details'', JString ''offline'')]),
      [\<lparr>url = ''https://api.notion.com/v1/search'', http_method = ''POST'',
        headers = [(''Authorization'', ''Bearer ''), (''Notion-Version'', ''2022-06-28''),
                   (''Content-Type'', ''application/json'')],
        body = Some (JObject [(''query'', JString ''notes'')])\<rparr>])"
  by (simp add: notionPostSearch_def try_fetch_def fetch_def catch_def field_def string_of_def
        assign_if_def notion_headers_def NOTION_API_BASE_URL_def NOTION_API_VERSION_def Let_def
        truthy_string_def)

subsection \<open>The page-retrieval adapter\<close>

lemma split_not_Nil: "split c s \<noteq> []"
  by (induction s) (auto split: list.split)

lemma join_not_Nil: "x \<noteq> [] \<Longrightarrow> join sep (x # xs) \<noteq> []"
  by (cases xs) auto

lemma URLSearchParams_toString_not_Nil:
  "params \<noteq> [] \<Longrightarrow> URLSearchParams_toString params \<noteq> []"
  by (cases params) (auto simp: URLSearchParams_toString_def join_not_Nil)

lemma foldl_searchParams_append:
  "foldl (\<lambda>u e. searchParams_append name (f e) u) u es =
     (if es = [] then u
      else u\<lparr>searchParams := searchParams u @ map (\<lambda>e. (name, f e)) es,
             query := Some (URLSearchParams_toString (searchParams u @ map (\<lambda>e. (name, f e)) es))\<rparr>)"
proof (induction es arbitrary: u)
  case Nil
  then show ?case by simp
next
  case (Cons e es)
  let ?F = "\<lambda>u e. searchParams_append name (f e) u"
  let ?u = "searchParams_append name (f e) u"
  have "foldl ?F u (e # es) = foldl ?F ?u es"
    by simp
  also have "\<dots> = (if es = [] then ?u
      else ?u\<lparr>searchParams := searchParams ?u @ map (\<lambda>e. (name, f e)) es,
             query := Some (URLSearchParams_toString (searchParams ?u @ map (\<lambda>e. (name, f e)) es))\<rparr>)"
    by (rule Cons.IH)
  also have "\<dots> = u\<lparr>searchParams := searchParams u @ map (\<lambda>e. (name, f e)) (e # es),
             query := Some (URLSearchParams_toString (searchParams u @ map (\<lambda>e. (name, f e)) (e # es)))\<rparr>"
    by (simp add: searchParams_append_def URLSearchParams_append_def Let_def
          URLSearchParams_toString_not_Nil)
  finally show ?case by simp
qed

lemma filter_other_names:
  "name \<notin> fst ` set params \<Longrightarrow> filter (\<lambda>(n, v). n = name) params = []"
  by (induction params) auto

lemma filter_same_name:
  "filter (\<lambda>(n, v). n = name) (map (\<lambda>e. (name, f e)) es) = map (\<lambda>e. (name, f e)) es"
  by (induction es) auto

text \<open>
  C9, as amended. For the page-retrieval adapter with a bound token and a page id whose
  URL, as \<open>new URL\<close> parses it, has no \<open>filter_properties\<close> parameter of its own: the
  adapter sends one request. The entries of \<open>filter_properties\<close> are the pieces of the
  string between commas (none when the argument is absent or the empty string). The
  parameters of the request's URL are those of the page's URL followed by one
  \<open>filter_properties\<close> parameter for each entry, trimmed, in the order of the entries; so
  its \<open>filter_properties\<close> parameters are exactly these. With an entry the URL's query is
  the serialisation of these parameters; with none the URL is the page's URL unchanged.
\<close>

theorem page_filter_properties_in_url:
  assumes "truthy_nullable notionToken"
      and "field args ''page_id'' = Some (JString page_id)"
      and "field args ''filter_properties'' = map_option JString filter_properties"
      and "''filter_properties''
             \<notin> fst ` set (searchParams (URL_new P (NOTION_API_BASE_URL @ ''/pages/'' @ page_id)))"
  shows "let page = URL_new P (NOTION_API_BASE_URL @ ''/pages/'' @ page_id);
             entries = (case filter_properties of
                          None \<Rightarrow> []
                        | Some s \<Rightarrow> if s = [] then [] else split (CHR '','') s);
             params = searchParams page
                        @ map (\<lambda>propId. (''filter_properties'', trim propId)) entries
         in map url (snd (notionRetrieveAPage P notionToken args net sent)) = map url sent @
              [before_query page
                 @ (if entries = [] then (case query page of None \<Rightarrow> [] | Some q \<Rightarrow> ''?'' @ q)
                    else ''?'' @ URLSearchParams_toString params)
                 @ (case fragment page of None \<Rightarrow> [] | Some f \<Rightarrow> ''#'' @ f)]
            \<and> filter (\<lambda>(name, v). name = ''filter_properties'') params
                = map (\<lambda>propId. (''filter_properties'', trim propId)) entries"
proof -
  obtain token where t: "notionToken = Some token" "truthy_string token"
    using assms(1) by (auto simp: truthy_nullable_def split: option.splits)
  have token: "token \<noteq> []"
    using t(2) by (simp add: truthy_string_def)
  let ?page = "URL_new P (NOTION_API_BASE_URL @ ''/pages/'' @ page_id)"
  let ?entries = "case filter_properties of
                    None \<Rightarrow> []
                  | Some s \<Rightarrow> if s = [] then [] else split (CHR '','') s"
  let ?new = "map (\<lambda>propId. (''filter_properties'', trim propId)) ?entries"
  have requested:
    "map url (snd (notionRetrieveAPage P notionToken args net sent)) = map url sent @
       [before_query ?page
          @ (if ?entries = [] then (case query ?page of None \<Rightarrow> [] | Some q \<Rightarrow> ''?'' @ q)
             else ''?'' @ URLSearchParams_toString (searchParams ?page @ ?new))
          @ (case fragment ?page of None \<Rightarrow> [] | Some f \<Rightarrow> ''#'' @ f)]"
    unfolding notionRetrieveAPage_def with_token_def t Let_def
    by (cases filter_properties)
       (simp_all add: token assms(2,3) try_fetch_sent string_of_def
          foldl_searchParams_append split_not_Nil URL_toString_def truthy_string_def)
  have "filter (\<lambda>(name, v). name = ''filter_properties'') (searchParams ?page) = []"
    using assms(4) by (rule filter_other_names)
  then have exactly:
    "filter (\<lambda>(name, v). name = ''filter_properties'') (searchParams ?page @ ?new) = ?new"
    by (simp only: filter_append filter_same_name append_Nil)
  from requested exactly show ?thesis
    unfolding Let_def by (rule conjI)
qed

theorem page_filter_properties_in_url_witness:
  "truthy_nullable (Some ''secret_1'')
   \<and> ''filter_properties''
        \<notin> fst ` set (searchParams (URL_new example_platform (NOTION_API_BASE_URL @ ''/pages/'' @ ''abc'')))
   \<and> map url (snd (notionRetrieveAPage example_platform (Some ''secret_1'')
        (JObject [(''page_id'', JString ''abc''), (''filter_properties'', JString ''title, iAk8 ,b7dh'')])
        (\<lambda>sent req. Inl (Error ''offline'')) []))
       = [''https://api.notion.com/v1/pages/abc?filter_properties=title&filter_properties=iAk8&filter_properties=b7dh'']
   \<and> filter (\<lambda>(name, v). name = ''filter_properties'')
        (searchParams (URL_new example_platform (NOTION_API_BASE_URL @ ''/pages/'' @ ''abc''))
           @ map (\<lambda>propId. (''filter_properties'', trim propId)) (split (CHR '','') ''title, iAk8 ,b7dh''))
       = [(''filter_properties'', ''title''), (''filter_properties'', ''iAk8''),
          (''filter_properties'', ''b7dh'')]"
proof -
  let ?args = "JObject [(''page_id'', JString ''abc''), (''filter_properties'', JString ''title, iAk8 ,b7dh'')]"
  have bound: "truthy_nullable (Some ''secret_1'')"
    by (simp add: truthy_nullable_def truthy_string_def)
  have page: "field ?args ''page_id'' = Some (JString ''abc'')"
    by (simp add: field_def)
  have filter: "field ?args ''filter_properties'' = map_option JString (Some ''title, iAk8 ,b7dh'')"
    by (simp add: field_def)
  have clean: "''filter_properties''
      \<notin> fst ` set (searchParams (URL_new example_platform (NOTION_API_BASE_URL @ ''/pages/'' @ ''abc'')))"
    by simp
  have pieces: "split (CHR '','') ''title, iAk8 ,b7dh'' = [''title'', '' iAk8 '', ''b7dh'']"
    by simp
  note claim = page_filter_properties_in_url
    [where P = example_platform and net = "\<lambda>sent req. Inl (Error ''offline'')" and sent = "[]",
     OF bound page filter clean, unfolded Let_def]
  from claim [THEN conjunct1]
  have requested: "map url (snd (notionRetrieveAPage example_platform (Some ''secret_1'') ?args
        (\<lambda>sent req. Inl (Error ''offline'')) []))
       = [''https://api.notion.com/v1/pages/abc?filter_properties=title&filter_properties=iAk8&filter_properties=b7dh'']"
    by (simp add: pieces NOTION_API_BASE_URL_def URLSearchParams_toString_def trim_def
          is_white_space_def urlencode_def urlencode_char_def Let_def)
  from claim [THEN conjunct2]
  have exactly: "filter (\<lambda>(name, v). name = ''filter_properties'')
        (searchParams (URL_new example_platform (NOTION_API_BASE_URL @ ''/pages/'' @ ''abc''))
           @ map (\<lambda>propId. (''filter_properties'', trim propId)) (split (CHR '','') ''title, iAk8 ,b7dh''))
       = [(''filter_properties'', ''title''), (''filter_properties'', ''iAk8''),
          (''filter_properties'', ''b7dh'')]"
    by (simp add: pieces trim_def is_white_space_def)
  from bound clean requested exactly show ?thesis
    by (intro conjI)
qed

text \<open>
  C9 as stated fails when the page id carries a query: \<open>page_id\<close> is any string, and
  \<open>new URL\<close> parses \<open>https://api.notion.com/v1/pages/abc?filter_properties=title\<close> into the
  path \<open>/v1/pages/abc\<close> and the query \<open>filter_properties=title\<close>. With \<open>filter_properties\<close>
  absent the request's URL then has a \<open>filter_properties\<close> parameter.
\<close>

theorem page_filter_properties_counterexample:
  "map url (snd (notionRetrieveAPage
      \<lparr>JSON_parse = (\<lambda>text. Inl (Error ''Unexpected end of JSON input'')),
       URL_new = (\<lambda>urlString.
         if urlString = ''https://api.notion.com/v1/pages/abc?filter_properties=title''
         then \<lparr>before_query = ''https://api.notion.com/v1/pages/abc'',
               query = Some ''filter_properties=title'', fragment = None,
               searchParams = [(''filter_properties'', ''title'')]\<rparr>
         else \<lparr>before_query = urlString, query = None, fragment = None, searchParams = []\<rparr>),
       Number_toString = (\<lambda>r. ''NaN'')\<rparr>
      (Some ''secret_1'')
      (JObject [(''page_id'', JString ''abc?filter_properties=title'')])
      (\<lambda>sent req. Inl (Error ''offline'')) []))
   = [''https://api.notion.com/v1/pages/abc?filter_properties=title'']"
  by (simp add: notionRetrieveAPage_def with_token_def Let_def try_fetch_sent field_def
        string_of_def truthy_string_def URL_toString_def NOTION_API_BASE_URL_def)

text \<open>
  C6. The page-retrieval adapter, bound to a token and called with \<open>page_id = "abc"\<close>
  against a remote that answers 404 with the body \<open>{"code": "object_not_found"}\<close>, returns
  the object whose \<open>error\<close> ends with \<open>failed with status 404\<close> and whose \<open>details\<close> is
  \<open>{code: "object_not_found"}\<close>.
\<close>

theorem page_not_found_example:
  "truthy_string token \<Longrightarrow>
   fst (execute P NotionRetrieveAPage (Some token) (JObject [(''page_id'', JString ''abc'')])
         (\<lambda>sent req. Inr \<lparr>status = 404,
                            json_result = Inr (JObject [(''code'', JString ''object_not_found'')])\<rparr>)
         sent)
     = Inr (JObject [(''error'', JString ''Notion API request (retrieve-a-page) failed with status 404''),
                     (''details'', JObject [(''code'', JString ''object_not_found'')])])
   \<and> suffix ''failed with status 404'' ''Notion API request (retrieve-a-page) failed with status 404''"
  by (simp add: notionRetrieveAPage_def with_token_def Let_def try_fetch_def fetch_def respond_def
        ok_def field_def string_of_nat.simps suffix_to_prefix)

theorem page_not_found_example_witness:
  "truthy_string ''secret_1''
   \<and> fst (execute example_platform NotionRetrieveAPage (Some ''secret_1'')
         (JObject [(''page_id'', JString ''abc'')])
         (\<lambda>sent req. Inr \<lparr>status = 404,
                            json_result = Inr (JObject [(''code'', JString ''object_not_found'')])\<rparr>)
         [])
     = Inr (JObject [(''error'', JString ''Notion API request (retrieve-a-page) failed with status 404''),
                     (''details'', JObject [(''code'', JString ''object_not_found'')])])"
proof -
  have bound: "truthy_string ''secret_1''"
    by (simp add: truthy_string_def)
  from page_not_found_example [OF bound, where P = example_platform and sent = "[]"]
  have "fst (execute example_platform NotionRetrieveAPage (Some ''secret_1'')
         (JObject [(''page_id'', JString ''abc'')])
         (\<lambda>sent req. Inr \<lparr>status = 404,
                            json_result = Inr (JObject [(''code'', JString ''object_not_found'')])\<rparr>)
         [])
     = Inr (JObject [(''error'', JString ''Notion API request (retrieve-a-page) failed with status 404''),
                     (''details'', JObject [(''code'', JString ''object_not_found'')])])"
    by (rule conjunct1)
  with bound show ?thesis by (rule conjI)
qed

section \<open>Schema validation: proofs\<close>

lemma block_id_required:
  "map_of kvs ''block_id'' = None \<Longrightarrow>
   safeParse (parameters is_url NotionRetrieveABlock) (Some (JObject kvs)) = None"
  by (simp add: z_object_def z_string_def parse_object_def)

text \<open>
  C5. An argument object that the adapter's \<open>parameters\<close> schema rejects is rejected by
  the invocation: \<open>execute\<close> does not run and no request is sent. In particular an object
  without \<open>block_id\<close> is rejected by the block-retrieval adapter's schema.
\<close>

theorem invalid_arguments_send_nothing:
  "(safeParse (parameters is_url a) (Some raw) = None \<longrightarrow>
      invoke_tool is_url P a notionToken raw net sent = (InvalidArguments, sent))
   \<and> (map_of kvs ''block_id'' = None \<longrightarrow>
        invoke_tool is_url P NotionRetrieveABlock notionToken (JObject kvs) net sent
          = (InvalidArguments, sent))"
proof (intro conjI impI)
  assume "safeParse (parameters is_url a) (Some raw) = None"
  then show "invoke_tool is_url P a notionToken raw net sent = (InvalidArguments, sent)"
    by (simp add: invoke_tool_def)
next
  assume "map_of kvs ''block_id'' = None"
  then have "safeParse (parameters is_url NotionRetrieveABlock) (Some (JObject kvs)) = None"
    by (rule block_id_required)
  then show "invoke_tool is_url P NotionRetrieveABlock notionToken (JObject kvs) net sent
          = (InvalidArguments, sent)"
    by (simp add: invoke_tool_def del: parameters.simps)
qed

theorem invalid_arguments_send_nothing_witness:
  "safeParse (parameters (\<lambda>s. True) NotionRetrieveABlock) (Some (JObject [(''page_size'', JNumber 5)])) = None
   \<and> invoke_tool (\<lambda>s. True) example_platform NotionRetrieveABlock (Some ''secret_1'')
        (JObject [(''page_size'', JNumber 5)])
        (\<lambda>sent req. Inr \<lparr>status = 200, json_result = Inr (JObject [])\<rparr>) []
       = (InvalidArguments, [])"
proof -
  have rejected: "safeParse (parameters (\<lambda>s. True) NotionRetrieveABlock)
      (Some (JObject [(''page_size'', JNumber 5)])) = None"
    by (simp add: z_object_def z_string_def parse_object_def)
  from invalid_arguments_send_nothing
    [where is_url = "\<lambda>s. True" and a = NotionRetrieveABlock
       and raw = "JObject [(''page_size'', JNumber 5)]" and P = example_platform
       and notionToken = "Some ''secret_1''"
       and net = "\<lambda>sent req. Inr \<lparr>status = 200, json_result = Inr (JObject [])\<rparr>"
       and sent = "[]"]
  have "safeParse (parameters (\<lambda>s. True) NotionRetrieveABlock)
          (Some (JObject [(''page_size'', JNumber 5)])) = None \<longrightarrow>
        invoke_tool (\<lambda>s. True) example_platform NotionRetrieveABlock (Some ''secret_1'')
          (JObject [(''page_size'', JNumber 5)])
          (\<lambda>sent req. Inr \<lparr>status = 200, json_result = Inr (JObject [])\<rparr>) []
        = (InvalidArguments, [])"
    by (rule conjunct1)
  from this rejected have "invoke_tool (\<lambda>s. True) example_platform NotionRetrieveABlock
          (Some ''secret_1'') (JObject [(''page_size'', JNumber 5)])
          (\<lambda>sent req. Inr \<lparr>status = 200, json_result = Inr (JObject [])\<rparr>) []
        = (InvalidArguments, [])"
    by (rule mp)
  with rejected show ?thesis by (rule conjI)
qed

end
